theory Spec2Isabelle
  imports Main "HOL-Library.AList"
begin

section \<open>Values, props objects and JSX attribute lists\<close>

text \<open>
  The component under study is \<^verbatim>\<open>packages/react/src/Banner/Banner.tsx\<close>. A props
  object is an association list from attribute names to values; \<open>map_of\<close> reads a key.
  The \<open>children\<close> entry of a props object is kept apart from the other keys, as a node.
\<close>

datatype octicon = AlertIcon | InfoIcon | StopIcon | CheckCircleIcon | XIcon

datatype pval =
    PStr string
  | PNum int
  | PBool bool
  | PFun nat
  | PIcon octicon

type_synonym props = "(string \<times> pval) list"

text \<open>
  A JSX opening tag \<^verbatim>\<open><X {...rest} a={v} />\<close> builds its props object from left to
  right: a spread copies every key of the object, an attribute sets one key, and a later
  entry replaces an earlier one with the same key.
\<close>

datatype jsx_attr = Spread props | Attr string pval

fun jsx_apply :: "props \<Rightarrow> jsx_attr \<Rightarrow> props" where
  "jsx_apply acc (Spread obj) = AList.merge acc obj"
| "jsx_apply acc (Attr k v) = AList.update k v acc"

definition jsx :: "jsx_attr list \<Rightarrow> props" where
  "jsx items = foldl jsx_apply [] items"

text \<open>Object rest destructuring \<^verbatim>\<open>{a, b, ...rest} = props\<close>: \<open>rest\<close> is \<open>props\<close> without the named keys.\<close>

definition rest_without :: "string list \<Rightarrow> props \<Rightarrow> props" where
  "rest_without ks obj = foldr AList.delete ks obj"

subsection \<open>Decimal text of a number\<close>

definition digit_of :: "nat \<Rightarrow> char" where
  "digit_of d = ''0123456789'' ! d"

fun dec_nat :: "nat \<Rightarrow> string" where
  "dec_nat n = (if n < 10 then [digit_of n] else dec_nat (n div 10) @ [digit_of (n mod 10)])"

definition dec_int :: "int \<Rightarrow> string" where
  "dec_int i = (if i < 0 then CHR ''-'' # dec_nat (nat (- i)) else dec_nat (nat i))"

subsection \<open>The class-name joiner\<close>

text \<open>
  \<^verbatim>\<open>cx\<close> is the \<^verbatim>\<open>clsx\<close> package, called in this file only as
  \<^verbatim>\<open>cx('SomeClass', className)\<close>: it joins its truthy string and number arguments
  with one space and skips every other argument. The second argument is the value read
  from the props object, \<open>None\<close> when the key is missing.
\<close>

fun cx_val :: "pval option \<Rightarrow> string" where
  "cx_val None = []"
| "cx_val (Some (PStr s)) = s"
| "cx_val (Some (PNum n)) = (if n = 0 then [] else dec_int n)"
| "cx_val (Some (PBool b)) = []"
| "cx_val (Some (PFun f)) = []"
| "cx_val (Some (PIcon i)) = []"

definition cx :: "string \<Rightarrow> pval option \<Rightarrow> string" where
  "cx base extra = (if cx_val extra = [] then base else base @ '' '' @ cx_val extra)"

section \<open>React nodes\<close>

datatype BannerVariant = critical | info | success | upsell | warning

datatype BannerContextValue = BannerContextValue (titleId: string)

text \<open>
  A React node is what a caller can put in a \<^verbatim>\<open>React.ReactNode\<close> position:
  \<^verbatim>\<open>undefined\<close>, \<^verbatim>\<open>null\<close>, a boolean, a number, a string, an array of nodes, or
  an element. The elements are the intrinsic ones (\<open>Host\<close>: tag, props, children), the
  context provider and the styled container of this file, the sub-components this file
  exports, and the three collaborators it imports (\<^verbatim>\<open>Button\<close>, \<^verbatim>\<open>IconButton\<close>,
  the octicons), which stay opaque.
\<close>

datatype node =
    Undefined
  | Null
  | BoolN bool
  | NumN int
  | StrN string
  | Frag "node list"
  | Host string props "node list"
  | Provider BannerContextValue "node list"
  | StyledBannerE props "node list"
  | BannerTitleE props node
  | BannerDescriptionE props node
  | BannerActionsE node node
  | BannerPrimaryActionE props node
  | BannerSecondaryActionE props node
  | ButtonE props "node list"
  | IconButtonE props
  | Octicon octicon

text \<open>JavaScript truthiness (\<^verbatim>\<open>x ? a : b\<close>, \<^verbatim>\<open>x || y\<close>) and nullish coalescing (\<^verbatim>\<open>x ?? y\<close>).\<close>

fun truthy :: "node \<Rightarrow> bool" where
  "truthy Undefined = False"
| "truthy Null = False"
| "truthy (BoolN b) = b"
| "truthy (NumN n) = (n \<noteq> 0)"
| "truthy (StrN s) = (s \<noteq> [])"
| "truthy _ = True"

fun nullish :: "node \<Rightarrow> bool" where
  "nullish Undefined = True"
| "nullish Null = True"
| "nullish _ = False"

definition coalesce :: "node \<Rightarrow> node \<Rightarrow> node" where
  "coalesce x y = (if nullish x then y else x)"

definition js_or :: "node \<Rightarrow> node \<Rightarrow> node" where
  "js_or x y = (if truthy x then x else y)"

section \<open>The components of Banner.tsx\<close>

datatype error = Error string

definition ContextMisuse :: error where
  "ContextMisuse = Error ''Component must be used within a <Banner> component''"

definition MissingAccessibleTitle :: error where
  "MissingAccessibleTitle = Error
     ''The Banner component requires a title to be provided as the `title` prop or through `Banner.Title`''"

text \<open>\<^verbatim>\<open>useBanner\<close>: the value of the nearest enclosing provider, \<open>None\<close> (the context's default \<^verbatim>\<open>null\<close>) outside one.\<close>

definition useBanner :: "BannerContextValue option \<Rightarrow> error + BannerContextValue" where
  "useBanner ctx = (case ctx of Some v \<Rightarrow> Inr v | None \<Rightarrow> Inl ContextMisuse)"

definition iconForVariant :: "BannerVariant \<Rightarrow> node" where
  "iconForVariant v = (case v of
       critical \<Rightarrow> Octicon StopIcon
     | info \<Rightarrow> Octicon InfoIcon
     | success \<Rightarrow> Octicon CheckCircleIcon
     | upsell \<Rightarrow> Octicon InfoIcon
     | warning \<Rightarrow> Octicon AlertIcon)"

definition variant_name :: "BannerVariant \<Rightarrow> string" where
  "variant_name v = (case v of
       critical \<Rightarrow> ''critical''
     | info \<Rightarrow> ''info''
     | success \<Rightarrow> ''success''
     | upsell \<Rightarrow> ''upsell''
     | warning \<Rightarrow> ''warning'')"

text \<open>
  \<^verbatim>\<open>BannerTitle\<close>. The heading tag is the \<^verbatim>\<open>as\<close> prop, \<^verbatim>\<open>'h2'\<close> when it is missing
  (the prop's type admits only heading tags, so a value that is not a string is read as
  missing).
\<close>

definition BannerTitle :: "BannerContextValue option \<Rightarrow> props \<Rightarrow> node \<Rightarrow> error + node" where
  "BannerTitle ctx props children =
     (let Heading = (case map_of props ''as'' of Some (PStr t) \<Rightarrow> t | _ \<Rightarrow> ''h2'');
          className = map_of props ''className'';
          rest = rest_without [''as'', ''className''] props
      in case useBanner ctx of
           Inl e \<Rightarrow> Inl e
         | Inr banner \<Rightarrow>
             Inr (Host Heading
                   (jsx [Spread rest, Attr ''id'' (PStr (titleId banner)),
                         Attr ''className'' (PStr (cx ''BannerTitle'' className))])
                   [children]))"

definition BannerDescription :: "props \<Rightarrow> node \<Rightarrow> node" where
  "BannerDescription props children =
     (let className = map_of props ''className'';
          rest = rest_without [''className''] props
      in Host ''div''
           (jsx [Spread rest, Attr ''className'' (PStr (cx ''BannerDescription'' className))])
           [children])"

definition BannerActions :: "node \<Rightarrow> node \<Rightarrow> node" where
  "BannerActions primaryAction secondaryAction =
     Host ''div'' (jsx [Attr ''className'' (PStr ''BannerActions'')])
       [Host ''div'' (jsx [Attr ''className'' (PStr ''BannerActionsContainer''),
                           Attr ''data-hide-on-sm'' (PStr '''')])
          [coalesce secondaryAction Null, coalesce primaryAction Null],
        Host ''div'' (jsx [Attr ''className'' (PStr ''BannerActionsContainer''),
                           Attr ''data-hide-on-md'' (PStr '''')])
          [coalesce primaryAction Null, coalesce secondaryAction Null]]"

definition BannerPrimaryAction :: "props \<Rightarrow> node \<Rightarrow> node" where
  "BannerPrimaryAction props children =
     (let className = map_of props ''className'';
          rest = rest_without [''className''] props
      in ButtonE
           (jsx [Attr ''className'' (PStr (cx ''BannerPrimaryAction'' className)),
                 Attr ''variant'' (PStr ''default''), Spread rest])
           [children])"

definition BannerSecondaryAction :: "props \<Rightarrow> node \<Rightarrow> node" where
  "BannerSecondaryAction props children =
     (let className = map_of props ''className'';
          rest = rest_without [''className''] props
      in ButtonE
           (jsx [Attr ''className'' (PStr (cx ''BannerPrimaryAction'' className)),
                 Attr ''variant'' (PStr ''invisible''), Spread rest])
           [children])"

text \<open>
  \<^verbatim>\<open>StyledBanner\<close> is \<^verbatim>\<open>styled.div\<close>: it renders the tag named by its \<^verbatim>\<open>as\<close> prop
  (\<^verbatim>\<open>div\<close> without one), consumes \<^verbatim>\<open>as\<close>, and hands the other props to that tag. The
  class name the styling engine generates is left out, and so is its dropping of props that
  are not HTML attributes: \<^verbatim>\<open>id\<close>, \<^verbatim>\<open>tabIndex\<close>, \<^verbatim>\<open>aria-*\<close> and \<^verbatim>\<open>data-*\<close> are.
\<close>

definition StyledBanner :: "props \<Rightarrow> node list \<Rightarrow> node" where
  "StyledBanner props children =
     Host (case map_of props ''as'' of Some (PStr t) \<Rightarrow> t | _ \<Rightarrow> ''div'')
          (rest_without [''as''] props) children"

text \<open>
  The props of the root. The node-valued props and the callback are fields; \<open>rest\<close> holds
  the pass-through attributes of the container (\<^verbatim>\<open>...rest\<close> of the parameter list).
  \<open>onDismiss\<close> is a callback, named by a number, or missing.
\<close>

record BannerProps =
  children :: node
  description :: node
  icon :: node
  onDismiss :: "nat option"
  primaryAction :: node
  secondaryAction :: node
  title :: node
  variant :: "BannerVariant option"
  rest :: props

section \<open>The rendered tree and the renderer\<close>

datatype dom = DText string | DElem string props "dom list"

definition octicon_name :: "octicon \<Rightarrow> string" where
  "octicon_name i = (case i of
       AlertIcon \<Rightarrow> ''AlertIcon''
     | InfoIcon \<Rightarrow> ''InfoIcon''
     | StopIcon \<Rightarrow> ''StopIcon''
     | CheckCircleIcon \<Rightarrow> ''CheckCircleIcon''
     | XIcon \<Rightarrow> ''XIcon'')"

text \<open>A weight that drops whenever the renderer replaces a component element by what the component returns.\<close>

fun nsize :: "node \<Rightarrow> nat" where
  "nsize (Frag ns) = Suc (sum_list (map (\<lambda>n. Suc (nsize n)) ns))"
| "nsize (Host t p ns) = Suc (sum_list (map (\<lambda>n. Suc (nsize n)) ns))"
| "nsize (Provider v ns) = Suc (sum_list (map (\<lambda>n. Suc (nsize n)) ns))"
| "nsize (StyledBannerE p ns) = Suc (Suc (sum_list (map (\<lambda>n. Suc (nsize n)) ns)))"
| "nsize (BannerTitleE p c) = nsize c + 3"
| "nsize (BannerDescriptionE p c) = nsize c + 3"
| "nsize (BannerActionsE a b) = 10 + 2 * (nsize a + nsize b)"
| "nsize (BannerPrimaryActionE p c) = nsize c + 3"
| "nsize (BannerSecondaryActionE p c) = nsize c + 3"
| "nsize (ButtonE p ns) = Suc (sum_list (map (\<lambda>n. Suc (nsize n)) ns))"
| "nsize _ = 1"

lemma nsize_coalesce_Null: "nsize (coalesce x Null) = nsize x"
  by (cases x) (simp_all add: coalesce_def)

text \<open>
  The host framework's renderer, as far as this file relies on it. \<open>ctx\<close> is the value
  of the nearest enclosing \<^verbatim>\<open>BannerContext.Provider\<close>. \<^verbatim>\<open>undefined\<close>, \<^verbatim>\<open>null\<close>,
  booleans and the empty string render nothing; a number or string renders as text; a
  component element renders as what its function returns, and a throw of that function
  is the result \<open>Inl\<close>. The imported collaborators are kept as elements named after them.
\<close>

function render :: "BannerContextValue option \<Rightarrow> node \<Rightarrow> error + dom list"
  and render_list :: "BannerContextValue option \<Rightarrow> node list \<Rightarrow> error + dom list" where
  "render ctx Undefined = Inr []"
| "render ctx Null = Inr []"
| "render ctx (BoolN b) = Inr []"
| "render ctx (NumN n) = Inr [DText (dec_int n)]"
| "render ctx (StrN s) = Inr (if s = [] then [] else [DText s])"
| "render ctx (Frag ns) = render_list ctx ns"
| "render ctx (Host t p ns) =
     (case render_list ctx ns of Inl e \<Rightarrow> Inl e | Inr ds \<Rightarrow> Inr [DElem t p ds])"
| "render ctx (Provider v ns) = render_list (Some v) ns"
| "render ctx (StyledBannerE p ns) = render ctx (StyledBanner p ns)"
| "render ctx (BannerTitleE p c) =
     (case BannerTitle ctx p c of Inl e \<Rightarrow> Inl e | Inr n \<Rightarrow> render ctx n)"
| "render ctx (BannerDescriptionE p c) = render ctx (BannerDescription p c)"
| "render ctx (BannerActionsE a b) = render ctx (BannerActions a b)"
| "render ctx (BannerPrimaryActionE p c) = render ctx (BannerPrimaryAction p c)"
| "render ctx (BannerSecondaryActionE p c) = render ctx (BannerSecondaryAction p c)"
| "render ctx (ButtonE p ns) =
     (case render_list ctx ns of Inl e \<Rightarrow> Inl e | Inr ds \<Rightarrow> Inr [DElem ''Button'' p ds])"
| "render ctx (IconButtonE p) = Inr [DElem ''IconButton'' p []]"
| "render ctx (Octicon i) = Inr [DElem (octicon_name i) [] []]"
| "render_list ctx [] = Inr []"
| "render_list ctx (n # ns) =
     (case render ctx n of
        Inl e \<Rightarrow> Inl e
      | Inr d \<Rightarrow> (case render_list ctx ns of Inl e \<Rightarrow> Inl e | Inr ds \<Rightarrow> Inr (d @ ds)))"
  by pat_completeness auto

termination
  apply (relation "measure (\<lambda>x. case x of
           Inl (c, n) \<Rightarrow> nsize n
         | Inr (c, ns) \<Rightarrow> sum_list (map (\<lambda>n. Suc (nsize n)) ns))")
  apply (auto simp: StyledBanner_def BannerTitle_def BannerDescription_def BannerActions_def
      BannerPrimaryAction_def BannerSecondaryAction_def Let_def nsize_coalesce_Null
      split: sum.splits)
  done

subsection \<open>Looking elements up by identifier\<close>

text \<open>The \<^verbatim>\<open>id\<close> an element carries: a string as it is, a number as its decimal text.\<close>

definition dom_id :: "props \<Rightarrow> string option" where
  "dom_id a = (case map_of a ''id'' of
       Some (PStr s) \<Rightarrow> Some s
     | Some (PNum n) \<Rightarrow> Some (dec_int n)
     | _ \<Rightarrow> None)"

fun elem_by_id :: "string \<Rightarrow> dom \<Rightarrow> dom option"
  and elems_by_id :: "string \<Rightarrow> dom list \<Rightarrow> dom option" where
  "elem_by_id i (DText s) = None"
| "elem_by_id i (DElem t a ks) =
     (if dom_id a = Some i then Some (DElem t a ks) else elems_by_id i ks)"
| "elems_by_id i [] = None"
| "elems_by_id i (d # ds) =
     (case elem_by_id i d of Some e \<Rightarrow> Some e | None \<Rightarrow> elems_by_id i ds)"

definition getElementById :: "dom list \<Rightarrow> string \<Rightarrow> dom option" where
  "getElementById document i = elems_by_id i document"

fun count_id :: "string \<Rightarrow> dom \<Rightarrow> nat"
  and count_ids :: "string \<Rightarrow> dom list \<Rightarrow> nat" where
  "count_id i (DText s) = 0"
| "count_id i (DElem t a ks) = (if dom_id a = Some i then 1 else 0) + count_ids i ks"
| "count_ids i [] = 0"
| "count_ids i (d # ds) = count_id i d + count_ids i ds"

section \<open>The root component\<close>

text \<open>The parameter default \<^verbatim>\<open>variant = 'info'\<close>.\<close>

definition resolved_variant :: "BannerProps \<Rightarrow> BannerVariant" where
  "resolved_variant p = (case variant p of None \<Rightarrow> info | Some v \<Rightarrow> v)"

text \<open>
  \<^verbatim>\<open>Banner\<close>. \<open>DEV\<close> is the build flag \<^verbatim>\<open>__DEV__\<close> and \<open>useId\<close> the identifier the
  framework's \<^verbatim>\<open>useId()\<close> hands to this mount. The result is the list of effects the
  call registers (each runs on the committed document) and the element it returns.
  \<^verbatim>\<open>dismissible\<close> is the value of \<^verbatim>\<open>variant !== 'critical' && onDismiss\<close>: the callback, or
  a falsy value. The forwarded \<^verbatim>\<open>ref\<close> is left out.
\<close>

definition Banner ::
  "bool \<Rightarrow> string \<Rightarrow> BannerProps \<Rightarrow> (dom list \<Rightarrow> error + unit) list \<times> node" where
  "Banner DEV useId p =
     (let variant' = resolved_variant p;
          titleId' = useId;
          value = BannerContextValue titleId';
          dismissible = (if variant' \<noteq> critical then onDismiss p else None);
          hasActions = js_or (primaryAction p) (secondaryAction p);
          effects =
            (if DEV
             then [\<lambda>document. case getElementById document titleId' of
                                 None \<Rightarrow> Inl MissingAccessibleTitle
                               | Some t \<Rightarrow> Inr ()]
             else [])
      in (effects,
          Provider value
           [StyledBannerE
              (jsx [Spread (rest p), Attr ''aria-labelledby'' (PStr titleId'),
                    Attr ''as'' (PStr ''section''),
                    Attr ''data-variant'' (PStr (variant_name variant')),
                    Attr ''tabIndex'' (PNum (- 1))])
              [Host ''div'' (jsx [Attr ''className'' (PStr ''BannerIcon'')])
                 [coalesce (icon p) (iconForVariant variant')],
               Host ''div'' (jsx [Attr ''className'' (PStr ''BannerContainer'')])
                 [Host ''div'' (jsx [Attr ''className'' (PStr ''BannerContent'')])
                    [if truthy (title p) then BannerTitleE [] (title p) else Null,
                     if truthy (description p) then BannerDescriptionE [] (description p)
                     else Null,
                     children p],
                  if truthy hasActions
                  then BannerActionsE (primaryAction p) (secondaryAction p) else Null],
               case dismissible of
                 Some h \<Rightarrow>
                   IconButtonE
                     (jsx [Attr ''aria-label'' (PStr ''Dismiss banner''),
                           Attr ''onClick'' (PFun h),
                           Attr ''className'' (PStr ''BannerDismiss''),
                           Attr ''icon'' (PIcon XIcon),
                           Attr ''variant'' (PStr ''invisible'')])
               | None \<Rightarrow> Null]]))"

text \<open>
  Mounting: render the returned element at the top level (no provider around it), commit
  it into the document beside the other content of the page, then run the registered
  effects in order; the first throw ends the mount.
\<close>

fun run_effects :: "(dom list \<Rightarrow> error + unit) list \<Rightarrow> dom list \<Rightarrow> error + unit" where
  "run_effects [] document = Inr ()"
| "run_effects (f # fs) document =
     (case f document of Inl e \<Rightarrow> Inl e | Inr u \<Rightarrow> run_effects fs document)"

definition mount :: "bool \<Rightarrow> string \<Rightarrow> BannerProps \<Rightarrow> dom list \<Rightarrow> error + dom list" where
  "mount DEV useId p page =
     (case Banner DEV useId p of
        (effects, tree) \<Rightarrow>
          (case render None tree of
             Inl e \<Rightarrow> Inl e
           | Inr ds \<Rightarrow>
               (case run_effects effects (page @ ds) of
                  Inl e \<Rightarrow> Inl e
                | Inr u \<Rightarrow> Inr ds)))"

section \<open>The style rules of the container that set \<open>display\<close>\<close>

text \<open>
  The template of \<^verbatim>\<open>StyledBanner\<close>, cut down to the declarations of \<^verbatim>\<open>display\<close>, in
  source order. A selector is a chain of class and attribute selectors joined by the
  descendant combinator, outermost first; the empty chain is the container itself. A rule
  under \<^verbatim>\<open>@media screen and (min-width: 544px)\<close> carries \<open>Some 544\<close>.
\<close>

datatype display = DNone | DBlock | DFlex | DGrid

datatype simple_selector = ClassSel string | AttrSel string

datatype css_rule =
  Rule (min_width: "nat option") (selector: "simple_selector list") (declared: display)

definition StyledBanner_display_rules :: "css_rule list" where
  "StyledBanner_display_rules =
     [Rule None [] DGrid,
      Rule None [ClassSel ''BannerIcon''] DGrid,
      Rule None [ClassSel ''BannerContainer''] DGrid,
      Rule None [ClassSel ''BannerContent''] DGrid,
      Rule None [ClassSel ''BannerActionsContainer''] DFlex,
      Rule None [ClassSel ''BannerActions'', AttrSel ''data-hide-on-sm''] DNone,
      Rule (Some 544) [ClassSel ''BannerActions'', AttrSel ''data-hide-on-sm''] DFlex,
      Rule (Some 544) [ClassSel ''BannerActions'', AttrSel ''data-hide-on-md''] DNone,
      Rule None [ClassSel ''BannerDismiss''] DGrid]"

primrec split_spaces :: "string \<Rightarrow> string \<Rightarrow> string list" where
  "split_spaces cur [] = (if cur = [] then [] else [cur])"
| "split_spaces cur (c # cs) =
     (if c = CHR '' ''
      then (if cur = [] then split_spaces [] cs else cur # split_spaces [] cs)
      else split_spaces (cur @ [c]) cs)"

definition class_names :: "props \<Rightarrow> string list" where
  "class_names a = (case map_of a ''className'' of
       Some (PStr s) \<Rightarrow> split_spaces [] s
     | _ \<Rightarrow> [])"

fun matches_simple :: "simple_selector \<Rightarrow> props \<Rightarrow> bool" where
  "matches_simple (ClassSel c) a = (c \<in> set (class_names a))"
| "matches_simple (AttrSel k) a = (map_of a k \<noteq> None)"

text \<open>\<open>anc\<close> lists the props of the ancestors inside the container, nearest first.\<close>

fun matches_up :: "simple_selector list \<Rightarrow> props list \<Rightarrow> bool" where
  "matches_up [] anc = True"
| "matches_up (s # ss) [] = False"
| "matches_up (s # ss) (a # anc) =
     ((matches_simple s a \<and> matches_up ss anc) \<or> matches_up (s # ss) anc)"

definition matches :: "simple_selector list \<Rightarrow> props \<Rightarrow> props list \<Rightarrow> bool" where
  "matches sel a anc = (case rev sel of
       [] \<Rightarrow> anc = []
     | s # ss \<Rightarrow> matches_simple s a \<and> matches_up ss anc)"

definition applies :: "nat \<Rightarrow> css_rule \<Rightarrow> bool" where
  "applies width r = (case min_width r of None \<Rightarrow> True | Some m \<Rightarrow> m \<le> width)"

text \<open>
  The cascade: among the rules that apply at this viewport width and match the element,
  the most specific wins, and of equally specific ones the last. Every simple selector of
  the template is a class or an attribute selector, so the chain's length orders
  specificity. The starting value is the user-agent default of a block element.
\<close>

fun cascade :: "nat \<Rightarrow> props \<Rightarrow> props list \<Rightarrow> css_rule list \<Rightarrow> nat \<times> display \<Rightarrow> display" where
  "cascade width a anc [] best = snd best"
| "cascade width a anc (r # rs) best =
     cascade width a anc rs
       (if applies width r \<and> matches (selector r) a anc \<and> fst best \<le> length (selector r)
        then (length (selector r), declared r) else best)"

definition display_of :: "nat \<Rightarrow> props \<Rightarrow> props list \<Rightarrow> display" where
  "display_of width a anc = cascade width a anc StyledBanner_display_rules (0, DBlock)"

text \<open>The child lists of the arrangements of an actions region that are displayed at a width.\<close>

fun shown :: "nat \<Rightarrow> props list \<Rightarrow> node \<Rightarrow> node list list" where
  "shown width anc (Host t a ks) = (if display_of width a anc = DNone then [] else [ks])"
| "shown width anc n = []"

fun visible_arrangements :: "nat \<Rightarrow> node \<Rightarrow> node list list" where
  "visible_arrangements width (Host t a cs) = concat (map (shown width [a]) cs)"
| "visible_arrangements width n = []"

section \<open>Counting title elements and identifiers in caller content\<close>

text \<open>
  \<open>titles n\<close>: the \<^verbatim>\<open>Banner.Title\<close> elements that \<open>n\<close> mounts and that read the context
  \<open>n\<close> itself is rendered in. The two nodes of an actions region are mounted twice each.
\<close>

fun titles :: "node \<Rightarrow> nat" where
  "titles (Frag ns) = sum_list (map titles ns)"
| "titles (Host t p ns) = sum_list (map titles ns)"
| "titles (Provider v ns) = 0"
| "titles (StyledBannerE p ns) = sum_list (map titles ns)"
| "titles (BannerTitleE p c) = Suc (titles c)"
| "titles (BannerDescriptionE p c) = titles c"
| "titles (BannerActionsE a b) = 2 * (titles a + titles b)"
| "titles (BannerPrimaryActionE p c) = titles c"
| "titles (BannerSecondaryActionE p c) = titles c"
| "titles (ButtonE p ns) = sum_list (map titles ns)"
| "titles _ = 0"

text \<open>
  \<open>fresh i n\<close>: nothing in \<open>n\<close> is given the identifier \<open>i\<close> by the caller, neither as an
  \<^verbatim>\<open>id\<close> attribute nor as the value of a provider. This is what \<^verbatim>\<open>useId\<close> promises of
  the identifier it generates.
\<close>

fun fresh :: "string \<Rightarrow> node \<Rightarrow> bool" where
  "fresh i (Frag ns) = list_all (fresh i) ns"
| "fresh i (Host t p ns) = (dom_id p \<noteq> Some i \<and> list_all (fresh i) ns)"
| "fresh i (Provider v ns) = (titleId v \<noteq> i \<and> list_all (fresh i) ns)"
| "fresh i (StyledBannerE p ns) = (dom_id p \<noteq> Some i \<and> list_all (fresh i) ns)"
| "fresh i (BannerTitleE p c) = fresh i c"
| "fresh i (BannerDescriptionE p c) = (dom_id p \<noteq> Some i \<and> fresh i c)"
| "fresh i (BannerActionsE a b) = (fresh i a \<and> fresh i b)"
| "fresh i (BannerPrimaryActionE p c) = (dom_id p \<noteq> Some i \<and> fresh i c)"
| "fresh i (BannerSecondaryActionE p c) = (dom_id p \<noteq> Some i \<and> fresh i c)"
| "fresh i (ButtonE p ns) = (dom_id p \<noteq> Some i \<and> list_all (fresh i) ns)"
| "fresh i (IconButtonE p) = (dom_id p \<noteq> Some i)"
| "fresh i _ = True"

definition content_fresh :: "string \<Rightarrow> BannerProps \<Rightarrow> bool" where
  "content_fresh i p =
     (dom_id (rest p) \<noteq> Some i \<and> fresh i (title p) \<and> fresh i (description p) \<and>
      fresh i (children p) \<and> fresh i (icon p) \<and>
      fresh i (primaryAction p) \<and> fresh i (secondaryAction p))"

definition titles_in_content :: "BannerProps \<Rightarrow> nat" where
  "titles_in_content p =
     titles (title p) + titles (description p) + titles (children p) + titles (icon p) +
     titles (primaryAction p) + titles (secondaryAction p)"

text \<open>\<open>own_ids i ctx n\<close>: how many elements with identifier \<open>i\<close> the node \<open>n\<close> yields under \<open>ctx\<close>.\<close>

fun own_ids :: "string \<Rightarrow> BannerContextValue option \<Rightarrow> node \<Rightarrow> nat" where
  "own_ids i ctx (Frag ns) = sum_list (map (own_ids i ctx) ns)"
| "own_ids i ctx (Host t p ns) =
     (if dom_id p = Some i then 1 else 0) + sum_list (map (own_ids i ctx) ns)"
| "own_ids i ctx (Provider v ns) = sum_list (map (own_ids i (Some v)) ns)"
| "own_ids i ctx (StyledBannerE p ns) =
     (if dom_id p = Some i then 1 else 0) + sum_list (map (own_ids i ctx) ns)"
| "own_ids i ctx (BannerTitleE p c) =
     (if ctx = Some (BannerContextValue i) then 1 else 0) + own_ids i ctx c"
| "own_ids i ctx (BannerDescriptionE p c) =
     (if dom_id p = Some i then 1 else 0) + own_ids i ctx c"
| "own_ids i ctx (BannerActionsE a b) = 2 * (own_ids i ctx a + own_ids i ctx b)"
| "own_ids i ctx (BannerPrimaryActionE p c) =
     (if dom_id p = Some i then 1 else 0) + own_ids i ctx c"
| "own_ids i ctx (BannerSecondaryActionE p c) =
     (if dom_id p = Some i then 1 else 0) + own_ids i ctx c"
| "own_ids i ctx (ButtonE p ns) =
     (if dom_id p = Some i then 1 else 0) + sum_list (map (own_ids i ctx) ns)"
| "own_ids i ctx (IconButtonE p) = (if dom_id p = Some i then 1 else 0)"
| "own_ids i ctx n = 0"

text \<open>What a node renders to below a provider, where rendering cannot fail (\<open>render_in_context\<close>).\<close>

definition rendered :: "BannerContextValue \<Rightarrow> node \<Rightarrow> dom list" where
  "rendered v n = (case render (Some v) n of Inr ds \<Rightarrow> ds | Inl e \<Rightarrow> [])"

section \<open>Reading props objects\<close>

lemma map_of_jsx_apply:
  "map_of (jsx_apply acc (Spread obj)) = map_of acc ++ map_of obj"
  "map_of (jsx_apply acc (Attr k v)) = (map_of acc)(k \<mapsto> v)"
  by (simp_all add: merge_conv' update_conv')

lemma map_of_rest_without:
  "map_of (rest_without ks obj) k = (if k \<in> set ks then None else map_of obj k)"
  by (induction ks) (simp_all add: rest_without_def delete_conv)

lemma jsx_literal:
  "jsx [Attr k v] = [(k, v)]"
  "k \<noteq> k' \<Longrightarrow> jsx [Attr k v, Attr k' v'] = [(k, v), (k', v')]"
  by (simp_all add: jsx_def)

section \<open>The action sub-components\<close>

lemma action_props_lookup:
  "map_of (jsx [Attr ''className'' cn, Attr ''variant'' v,
                Spread (rest_without [''className''] props)]) k =
     (if k = ''className'' then Some cn
      else case map_of props k of
             Some x \<Rightarrow> Some x
           | None \<Rightarrow> (if k = ''variant'' then Some v else None))"
  by (simp add: jsx_def merge_conv' update_conv' map_of_rest_without map_add_def split: option.splits)

text \<open>
  C7, as amended. The props type of \<^verbatim>\<open>Banner.PrimaryAction\<close> and
  \<^verbatim>\<open>Banner.SecondaryAction\<close> omits \<^verbatim>\<open>variant\<close>. For every props object without a
  \<^verbatim>\<open>variant\<close> key and every content, the primary action returns a \<^verbatim>\<open>Button\<close> element
  whose \<^verbatim>\<open>variant\<close> is \<^verbatim>\<open>default\<close>, and the secondary action one whose \<^verbatim>\<open>variant\<close> is
  \<^verbatim>\<open>invisible\<close>, with the content as the only child.
\<close>

theorem action_variant_fixed:
  assumes "map_of props ''variant'' = None"
  shows "(\<exists>bp. BannerPrimaryAction props c = ButtonE bp [c] \<and>
              map_of bp ''variant'' = Some (PStr ''default'')) \<and>
         (\<exists>bp. BannerSecondaryAction props c = ButtonE bp [c] \<and>
              map_of bp ''variant'' = Some (PStr ''invisible''))"
  using assms
  by (simp add: BannerPrimaryAction_def BannerSecondaryAction_def Let_def action_props_lookup)

theorem action_variant_fixed_witness:
  "map_of [(''size'', PStr ''small'')] ''variant'' = None \<and>
   (\<exists>bp. BannerPrimaryAction [(''size'', PStr ''small'')] (StrN ''Save'') = ButtonE bp [StrN ''Save''] \<and>
        map_of bp ''variant'' = Some (PStr ''default'')) \<and>
   (\<exists>bp. BannerSecondaryAction [(''size'', PStr ''small'')] (StrN ''Save'') = ButtonE bp [StrN ''Save''] \<and>
        map_of bp ''variant'' = Some (PStr ''invisible''))"
proof -
  have h: "map_of [(''size'', PStr ''small'')] ''variant'' = None" by simp
  show ?thesis using h action_variant_fixed [OF h, of "StrN ''Save''"] by simp
qed

text \<open>
  C7 as stated fails: \<^verbatim>\<open>{...rest}\<close> comes after \<^verbatim>\<open>variant="default"\<close> in the opening
  tag, so a \<^verbatim>\<open>variant\<close> key that reaches the component at run time replaces the fixed one.
\<close>

theorem action_variant_overridden:
  "render None (BannerPrimaryActionE [(''variant'', PStr ''danger'')] (StrN ''Save'')) =
     Inr [DElem ''Button''
            [(''className'', PStr ''BannerPrimaryAction''), (''variant'', PStr ''danger'')]
            [DText ''Save'']] \<and>
   render None (BannerSecondaryActionE [(''variant'', PStr ''danger'')] (StrN ''Save'')) =
     Inr [DElem ''Button''
            [(''className'', PStr ''BannerPrimaryAction''), (''variant'', PStr ''danger'')]
            [DText ''Save'']]"
  by (simp add: BannerPrimaryAction_def BannerSecondaryAction_def Let_def jsx_def
      rest_without_def cx_def AList.delete_eq)

text \<open>
  C10. For every props object and content, \<^verbatim>\<open>Banner.SecondaryAction\<close> returns a
  \<^verbatim>\<open>Button\<close> element whose \<^verbatim>\<open>className\<close> is \<^verbatim>\<open>cx('BannerPrimaryAction', className)\<close>:
  the class name of the primary action, followed by the caller's class name (after one
  space) when that is a non-empty string, and alone when the caller gives none. The
  primary action computes the same \<^verbatim>\<open>className\<close>.
\<close>

theorem secondary_action_className:
  "\<exists>bp. BannerSecondaryAction props c = ButtonE bp [c] \<and>
        map_of bp ''className'' = Some (PStr (cx ''BannerPrimaryAction'' (map_of props ''className''))) \<and>
        (\<exists>bq. BannerPrimaryAction props c = ButtonE bq [c] \<and>
              map_of bq ''className'' = map_of bp ''className'') \<and>
        cx ''BannerPrimaryAction'' None = ''BannerPrimaryAction'' \<and>
        cx ''BannerPrimaryAction'' (Some (PStr (x # xs))) = ''BannerPrimaryAction'' @ '' '' @ x # xs \<and>
        (\<exists>more. cx ''BannerPrimaryAction'' (map_of props ''className'') = ''BannerPrimaryAction'' @ more)"
  by (simp add: BannerPrimaryAction_def BannerSecondaryAction_def Let_def action_props_lookup cx_def)

theorem secondary_action_className_witness:
  "render None (BannerSecondaryActionE [(''className'', PStr ''wide'')] (StrN ''Later'')) =
     Inr [DElem ''Button''
            [(''className'', PStr ''BannerPrimaryAction wide''), (''variant'', PStr ''invisible'')]
            [DText ''Later'']] \<and>
   (\<exists>bp. BannerSecondaryAction [(''className'', PStr ''wide'')] (StrN ''Later'') = ButtonE bp [StrN ''Later''] \<and>
         map_of bp ''className'' = Some (PStr ''BannerPrimaryAction wide''))"
proof -
  have r: "render None (BannerSecondaryActionE [(''className'', PStr ''wide'')] (StrN ''Later'')) =
     Inr [DElem ''Button''
            [(''className'', PStr ''BannerPrimaryAction wide''), (''variant'', PStr ''invisible'')]
            [DText ''Later'']]"
    by (simp add: BannerSecondaryAction_def Let_def jsx_def rest_without_def cx_def AList.delete_eq)
  have c: "cx ''BannerPrimaryAction'' (map_of [(''className'', PStr ''wide'')] ''className'') =
           ''BannerPrimaryAction wide''"
    by (simp add: cx_def)
  show ?thesis
    using r c secondary_action_className [of "[(''className'', PStr ''wide'')]" "StrN ''Later''"]
    by auto
qed

section \<open>The two arrangements of the actions region\<close>

lemma arrangement_display:
  "display_of w [(''className'', PStr ''BannerActionsContainer''), (''data-hide-on-sm'', PStr [])]
      ([(''className'', PStr ''BannerActions'')] # up) = (if w < 544 then DNone else DFlex)"
  "display_of w [(''className'', PStr ''BannerActionsContainer''), (''data-hide-on-md'', PStr [])]
      ([(''className'', PStr ''BannerActions'')] # up) = (if w < 544 then DFlex else DNone)"
  by (simp_all add: display_of_def StyledBanner_display_rules_def matches_def applies_def
      class_names_def)

text \<open>
  C3, as amended. \<^verbatim>\<open>BannerActions\<close> always returns one region holding both
  arrangements: first the one marked \<^verbatim>\<open>data-hide-on-sm\<close> with the order (secondary,
  primary), then the one marked \<^verbatim>\<open>data-hide-on-md\<close> with the order (primary, secondary).
  The result does not depend on the viewport; the style rules alone decide which one is
  displayed: below 544 pixels the first has \<^verbatim>\<open>display: none\<close> and the second
  \<^verbatim>\<open>display: flex\<close>, so (primary, secondary) is the visible order; at 544 pixels and
  above it is the other way round, and (secondary, primary) is the visible order.
\<close>

theorem actions_both_arrangements:
  "BannerActions pa sa =
     Host ''div'' [(''className'', PStr ''BannerActions'')]
       [Host ''div'' [(''className'', PStr ''BannerActionsContainer''), (''data-hide-on-sm'', PStr [])]
          [coalesce sa Null, coalesce pa Null],
        Host ''div'' [(''className'', PStr ''BannerActionsContainer''), (''data-hide-on-md'', PStr [])]
          [coalesce pa Null, coalesce sa Null]] \<and>
   display_of w [(''className'', PStr ''BannerActionsContainer''), (''data-hide-on-sm'', PStr [])]
      ([(''className'', PStr ''BannerActions'')] # up) = (if w < 544 then DNone else DFlex) \<and>
   display_of w [(''className'', PStr ''BannerActionsContainer''), (''data-hide-on-md'', PStr [])]
      ([(''className'', PStr ''BannerActions'')] # up) = (if w < 544 then DFlex else DNone) \<and>
   visible_arrangements w (BannerActions pa sa) =
     (if w < 544 then [[coalesce pa Null, coalesce sa Null]]
      else [[coalesce sa Null, coalesce pa Null]])"
  by (simp add: BannerActions_def jsx_literal arrangement_display)

theorem actions_both_arrangements_witness:
  "visible_arrangements 543 (BannerActions (StrN ''Primary'') (StrN ''Secondary'')) =
     [[StrN ''Primary'', StrN ''Secondary'']] \<and>
   visible_arrangements 544 (BannerActions (StrN ''Primary'') (StrN ''Secondary'')) =
     [[StrN ''Secondary'', StrN ''Primary'']]"
  using actions_both_arrangements [of "StrN ''Primary''" "StrN ''Secondary''" 543 "[]"]
        actions_both_arrangements [of "StrN ''Primary''" "StrN ''Secondary''" 544 "[]"]
  by (simp add: coalesce_def)

text \<open>
  C3 as stated fails: on a viewport 320 pixels wide, below the breakpoint, the displayed
  arrangement is (primary, secondary), not (secondary, primary).
\<close>

theorem actions_order_below_breakpoint:
  "visible_arrangements 320 (BannerActions (StrN ''Primary'') (StrN ''Secondary'')) =
     [[StrN ''Primary'', StrN ''Secondary'']] \<and>
   visible_arrangements 320 (BannerActions (StrN ''Primary'') (StrN ''Secondary'')) \<noteq>
     [[StrN ''Secondary'', StrN ''Primary'']]"
  by (simp add: BannerActions_def jsx_literal coalesce_def display_of_def
      StyledBanner_display_rules_def matches_def applies_def class_names_def)

section \<open>Rendering below a provider never fails\<close>

lemma BannerTitle_None: "BannerTitle None p c = Inl ContextMisuse"
  by (simp add: BannerTitle_def useBanner_def)

lemma BannerTitle_Some:
  "\<exists>H A. BannerTitle (Some a) p c = Inr (Host H A [c]) \<and> dom_id A = Some (titleId a)"
  by (simp add: BannerTitle_def useBanner_def Let_def dom_id_def jsx_def update_conv')

lemma render_total_aux:
  "ctx \<noteq> None \<longrightarrow> (\<exists>ds. render ctx n = Inr ds)"
  "ctx \<noteq> None \<longrightarrow> (\<exists>ds. render_list ctx ns = Inr ds)"
proof (induction ctx n and ctx ns rule: render_render_list.induct)
  case (10 ctx p c)
  then show ?case
    by (auto simp: BannerTitle_def useBanner_def Let_def split: option.splits)
qed (auto simp: StyledBanner_def BannerDescription_def BannerActions_def
      BannerPrimaryAction_def BannerSecondaryAction_def Let_def split: sum.splits)

lemma render_in_context: "render (Some v) n = Inr (rendered v n)"
  using render_total_aux(1) [of "Some v" n] by (auto simp: rendered_def)

lemma rendered_coalesce_Null: "rendered v (coalesce x Null) = rendered v x"
  by (cases x) (simp_all add: coalesce_def rendered_def)

lemma render_list_in_context: "render_list (Some v) ns = Inr (concat (map (rendered v) ns))"
  by (induction ns) (simp_all add: render_in_context)

lemma rendered_eq: "render (Some v) n = Inr ds \<Longrightarrow> rendered v n = ds"
  by (simp add: rendered_def)

lemma rendered_leaf:
  "rendered v Undefined = []"
  "rendered v Null = []"
  "rendered v (BoolN b) = []"
  "rendered v (IconButtonE a) = [DElem ''IconButton'' a []]"
  "rendered v (Octicon k) = [DElem (octicon_name k) [] []]"
  by (rule rendered_eq, simp)+

lemma rendered_Host: "rendered v (Host t a ns) = [DElem t a (concat (map (rendered v) ns))]"
  by (rule rendered_eq) (simp add: render_list_in_context)

lemma rendered_StyledBanner:
  "rendered v (StyledBannerE a ns) = rendered v (StyledBanner a ns)"
  by (rule rendered_eq) (simp add: render_in_context)

lemma title_attrs_literal:
  "jsx [Spread (rest_without [''as'', ''className''] []), Attr ''id'' (PStr i),
        Attr ''className'' (PStr (cx ''BannerTitle'' None))] =
     [(''id'', PStr i), (''className'', PStr ''BannerTitle'')]"
  by (simp add: jsx_def rest_without_def cx_def)

lemma description_attrs_literal:
  "jsx [Spread (rest_without [''className''] []),
        Attr ''className'' (PStr (cx ''BannerDescription'' None))] =
     [(''className'', PStr ''BannerDescription'')]"
  by (simp add: jsx_def rest_without_def cx_def)

lemma dismiss_attrs_literal:
  "jsx [Attr ''aria-label'' (PStr ''Dismiss banner''), Attr ''onClick'' (PFun h),
        Attr ''className'' (PStr ''BannerDismiss''), Attr ''icon'' (PIcon XIcon),
        Attr ''variant'' (PStr ''invisible'')] =
     [(''aria-label'', PStr ''Dismiss banner''), (''onClick'', PFun h),
      (''className'', PStr ''BannerDismiss''), (''icon'', PIcon XIcon),
      (''variant'', PStr ''invisible'')]"
  by (simp add: jsx_def)

lemma rendered_Title_plain:
  "rendered v (BannerTitleE [] c) =
     [DElem ''h2'' [(''id'', PStr (titleId v)), (''className'', PStr ''BannerTitle'')] (rendered v c)]"
proof (rule rendered_eq)
  have "BannerTitle (Some v) [] c =
          Inr (Host ''h2'' [(''id'', PStr (titleId v)), (''className'', PStr ''BannerTitle'')] [c])"
    by (simp add: BannerTitle_def useBanner_def Let_def title_attrs_literal)
  then show "render (Some v) (BannerTitleE [] c) =
      Inr [DElem ''h2'' [(''id'', PStr (titleId v)), (''className'', PStr ''BannerTitle'')] (rendered v c)]"
    by (simp add: render_in_context)
qed

lemma rendered_Description_plain:
  "rendered v (BannerDescriptionE [] c) =
     [DElem ''div'' [(''className'', PStr ''BannerDescription'')] (rendered v c)]"
proof (rule rendered_eq)
  have "BannerDescription [] c = Host ''div'' [(''className'', PStr ''BannerDescription'')] [c]"
    by (simp add: BannerDescription_def Let_def description_attrs_literal)
  then show "render (Some v) (BannerDescriptionE [] c) =
      Inr [DElem ''div'' [(''className'', PStr ''BannerDescription'')] (rendered v c)]"
    by (simp add: render_in_context)
qed

lemma BannerActions_literal:
  "BannerActions a b =
     Host ''div'' [(''className'', PStr ''BannerActions'')]
       [Host ''div'' [(''className'', PStr ''BannerActionsContainer''), (''data-hide-on-sm'', PStr [])]
          [coalesce b Null, coalesce a Null],
        Host ''div'' [(''className'', PStr ''BannerActionsContainer''), (''data-hide-on-md'', PStr [])]
          [coalesce a Null, coalesce b Null]]"
  by (simp add: BannerActions_def jsx_literal)

lemma rendered_Actions:
  "rendered v (BannerActionsE a b) =
     [DElem ''div'' [(''className'', PStr ''BannerActions'')]
        [DElem ''div'' [(''className'', PStr ''BannerActionsContainer''), (''data-hide-on-sm'', PStr [])]
           (rendered v b @ rendered v a),
         DElem ''div'' [(''className'', PStr ''BannerActionsContainer''), (''data-hide-on-md'', PStr [])]
           (rendered v a @ rendered v b)]]"
proof -
  have "render (Some v) (BannerActionsE a b) = Inr (rendered v (BannerActions a b))"
    by (simp add: render_in_context)
  then have "rendered v (BannerActionsE a b) = rendered v (BannerActions a b)"
    by (rule rendered_eq)
  then show ?thesis
    by (simp add: BannerActions_literal rendered_Host rendered_coalesce_Null)
qed

section \<open>Identifiers in a rendered tree\<close>

lemma count_ids_append: "count_ids i (xs @ ys) = count_ids i xs + count_ids i ys"
  by (induction xs) simp_all

lemma dom_id_cong: "map_of a ''id'' = map_of b ''id'' \<Longrightarrow> dom_id a = dom_id b"
  by (simp add: dom_id_def)

lemma dom_id_description:
  "dom_id (jsx [Spread (rest_without [''className''] p), Attr ''className'' c]) = dom_id p"
  by (rule dom_id_cong)
     (simp add: jsx_def update_conv' merge_conv' map_of_rest_without map_add_def)

lemma dom_id_action:
  "dom_id (jsx [Attr ''className'' c, Attr ''variant'' v,
                Spread (rest_without [''className''] p)]) = dom_id p"
  by (rule dom_id_cong) (simp add: action_props_lookup split: option.splits)

lemma dom_id_unrelated:
  "dom_id (jsx [Attr ''className'' c]) = None"
  "dom_id (jsx [Attr ''className'' c, Attr ''data-hide-on-sm'' d]) = None"
  "dom_id (jsx [Attr ''className'' c, Attr ''data-hide-on-md'' d]) = None"
  by (simp_all add: dom_id_def jsx_def update_conv')

lemma dom_id_rest_without_as: "dom_id (rest_without [''as''] p) = dom_id p"
  by (rule dom_id_cong) (simp add: map_of_rest_without)

lemma own_ids_coalesce_Null: "own_ids i ctx (coalesce x Null) = own_ids i ctx x"
  by (cases x) (simp_all add: coalesce_def)

lemma ctx_value_eq: "(a = BannerContextValue i) = (titleId a = i)"
  by (cases a) auto

lemma count_rendered_aux:
  "\<forall>ds. render ctx n = Inr ds \<longrightarrow> count_ids i ds = own_ids i ctx n"
  "\<forall>ds. render_list ctx ns = Inr ds \<longrightarrow> count_ids i ds = sum_list (map (own_ids i ctx) ns)"
proof (induction ctx n and ctx ns rule: render_render_list.induct)
  case (9 ctx p ns)
  then show ?case by (simp add: StyledBanner_def dom_id_rest_without_as)
next
  case (10 ctx p c)
  show ?case
  proof (cases ctx)
    case None
    then show ?thesis by (simp add: BannerTitle_None)
  next
    case (Some a)
    obtain H A where t: "BannerTitle ctx p c = Inr (Host H A [c])"
      and A: "dom_id A = Some (titleId a)"
      using BannerTitle_Some [of a p c] Some by auto
    from "10" [OF t] A Some t show ?thesis
      by (auto simp: ctx_value_eq split: sum.splits)
  qed
next
  case (11 ctx p c)
  then show ?case by (simp add: BannerDescription_def Let_def dom_id_description)
next
  case (12 ctx a b)
  then show ?case by (simp add: BannerActions_def dom_id_unrelated own_ids_coalesce_Null)
next
  case (13 ctx p c)
  then show ?case by (simp add: BannerPrimaryAction_def Let_def dom_id_action)
next
  case (14 ctx p c)
  then show ?case by (simp add: BannerSecondaryAction_def Let_def dom_id_action)
next
  case (19 ctx n ns)
  then show ?case by (auto simp: count_ids_append split: sum.splits)
qed (auto split: sum.splits if_splits simp: dom_id_def)

lemma count_ids_rendered: "count_ids i (rendered v n) = own_ids i (Some v) n"
  using count_rendered_aux(1) [of "Some v" n i] render_in_context [of v n] by simp

lemma own_ids_fresh:
  "fresh i n \<Longrightarrow> own_ids i ctx n = (if ctx = Some (BannerContextValue i) then titles n else 0)"
proof (induction n arbitrary: ctx)
  case (Frag ns)
  then show ?case by (induction ns) auto
next
  case (Host t p ns)
  then show ?case by (induction ns) auto
next
  case (Provider v ns)
  then show ?case by (induction ns) (auto simp: ctx_value_eq)
next
  case (StyledBannerE p ns)
  then show ?case by (induction ns) auto
next
  case (ButtonE p ns)
  then show ?case by (induction ns) auto
qed auto

lemma count_ids_fresh:
  "fresh i n \<Longrightarrow> count_ids i (rendered (BannerContextValue i) n) = titles n"
  by (simp add: count_ids_rendered own_ids_fresh)

lemma falsy_no_titles: "\<not> truthy n \<Longrightarrow> titles n = 0"
  by (cases n) simp_all

lemma elems_by_id_None:
  "(elem_by_id i d = None) = (count_id i d = 0)"
  "(elems_by_id i ds = None) = (count_ids i ds = 0)"
  by (induction i d and i ds rule: elem_by_id_elems_by_id.induct)
     (auto split: option.splits)

section \<open>The tree a root renders to\<close>

lemma container_attrs:
  "map_of (rest_without [''as'']
      (jsx [Spread r, Attr ''aria-labelledby'' a, Attr ''as'' s, Attr ''data-variant'' d,
            Attr ''tabIndex'' t])) k =
     (if k = ''as'' then None
      else if k = ''tabIndex'' then Some t
      else if k = ''data-variant'' then Some d
      else if k = ''aria-labelledby'' then Some a
      else map_of r k)"
  by (simp add: map_of_rest_without jsx_def merge_conv' update_conv')

lemma container_as:
  "map_of (jsx [Spread r, Attr ''aria-labelledby'' a, Attr ''as'' s, Attr ''data-variant'' d,
                Attr ''tabIndex'' t]) ''as'' = Some s"
  by (simp add: jsx_def merge_conv' update_conv')

lemma truthy_js_or: "truthy (js_or x y) = (truthy x \<or> truthy y)"
  by (simp add: js_or_def)

lemma Banner_tree:
  "snd (Banner dev i p) =
     Provider (BannerContextValue i)
       [StyledBannerE
          (jsx [Spread (rest p), Attr ''aria-labelledby'' (PStr i), Attr ''as'' (PStr ''section''),
                Attr ''data-variant'' (PStr (variant_name (resolved_variant p))),
                Attr ''tabIndex'' (PNum (- 1))])
          [Host ''div'' [(''className'', PStr ''BannerIcon'')]
             [coalesce (icon p) (iconForVariant (resolved_variant p))],
           Host ''div'' [(''className'', PStr ''BannerContainer'')]
             [Host ''div'' [(''className'', PStr ''BannerContent'')]
                [if truthy (title p) then BannerTitleE [] (title p) else Null,
                 if truthy (description p) then BannerDescriptionE [] (description p) else Null,
                 children p],
              if truthy (primaryAction p) \<or> truthy (secondaryAction p)
              then BannerActionsE (primaryAction p) (secondaryAction p) else Null],
           case (if resolved_variant p \<noteq> critical then onDismiss p else None) of
             Some h \<Rightarrow>
               IconButtonE
                 [(''aria-label'', PStr ''Dismiss banner''), (''onClick'', PFun h),
                  (''className'', PStr ''BannerDismiss''), (''icon'', PIcon XIcon),
                  (''variant'', PStr ''invisible'')]
           | None \<Rightarrow> Null]]"
  by (simp add: Banner_def Let_def jsx_literal dismiss_attrs_literal truthy_js_or
      split: option.splits)

lemma render_Banner:
  "render None (snd (Banner dev i p)) =
     Inr [DElem ''section''
       (rest_without [''as'']
          (jsx [Spread (rest p), Attr ''aria-labelledby'' (PStr i), Attr ''as'' (PStr ''section''),
                Attr ''data-variant'' (PStr (variant_name (resolved_variant p))),
                Attr ''tabIndex'' (PNum (- 1))]))
       ([DElem ''div'' [(''className'', PStr ''BannerIcon'')]
           (rendered (BannerContextValue i) (coalesce (icon p) (iconForVariant (resolved_variant p)))),
         DElem ''div'' [(''className'', PStr ''BannerContainer'')]
           (DElem ''div'' [(''className'', PStr ''BannerContent'')]
              ((if truthy (title p)
                then [DElem ''h2'' [(''id'', PStr i), (''className'', PStr ''BannerTitle'')]
                        (rendered (BannerContextValue i) (title p))]
                else []) @
               (if truthy (description p)
                then [DElem ''div'' [(''className'', PStr ''BannerDescription'')]
                        (rendered (BannerContextValue i) (description p))]
                else []) @
               rendered (BannerContextValue i) (children p)) #
            (if truthy (primaryAction p) \<or> truthy (secondaryAction p)
             then [DElem ''div'' [(''className'', PStr ''BannerActions'')]
                     [DElem ''div''
                        [(''className'', PStr ''BannerActionsContainer''),
                         (''data-hide-on-sm'', PStr [])]
                        (rendered (BannerContextValue i) (secondaryAction p) @
                         rendered (BannerContextValue i) (primaryAction p)),
                      DElem ''div''
                        [(''className'', PStr ''BannerActionsContainer''),
                         (''data-hide-on-md'', PStr [])]
                        (rendered (BannerContextValue i) (primaryAction p) @
                         rendered (BannerContextValue i) (secondaryAction p))]]
             else []))] @
        (case (if resolved_variant p \<noteq> critical then onDismiss p else None) of
           Some h \<Rightarrow>
             [DElem ''IconButton''
                [(''aria-label'', PStr ''Dismiss banner''), (''onClick'', PFun h),
                 (''className'', PStr ''BannerDismiss''), (''icon'', PIcon XIcon),
                 (''variant'', PStr ''invisible'')] []]
         | None \<Rightarrow> []))]"
proof -
  let ?v = "BannerContextValue i"
  define A where "A = jsx [Spread (rest p), Attr ''aria-labelledby'' (PStr i),
                     Attr ''as'' (PStr ''section''),
                     Attr ''data-variant'' (PStr (variant_name (resolved_variant p))),
                     Attr ''tabIndex'' (PNum (- 1))]"
  define K where "K = [Host ''div'' [(''className'', PStr ''BannerIcon'')]
                   [coalesce (icon p) (iconForVariant (resolved_variant p))],
                 Host ''div'' [(''className'', PStr ''BannerContainer'')]
                   [Host ''div'' [(''className'', PStr ''BannerContent'')]
                      [if truthy (title p) then BannerTitleE [] (title p) else Null,
                       if truthy (description p) then BannerDescriptionE [] (description p)
                       else Null,
                       children p],
                    if truthy (primaryAction p) \<or> truthy (secondaryAction p)
                    then BannerActionsE (primaryAction p) (secondaryAction p) else Null],
                 case (if resolved_variant p \<noteq> critical then onDismiss p else None) of
                   Some h \<Rightarrow>
                     IconButtonE
                       [(''aria-label'', PStr ''Dismiss banner''), (''onClick'', PFun h),
                        (''className'', PStr ''BannerDismiss''), (''icon'', PIcon XIcon),
                        (''variant'', PStr ''invisible'')]
                 | None \<Rightarrow> Null]"
  have tree: "snd (Banner dev i p) = Provider ?v [StyledBannerE A K]"
    unfolding A_def K_def by (rule Banner_tree)
  have s1: "render None (snd (Banner dev i p)) = render_list (Some ?v) [StyledBannerE A K]"
    by (simp only: tree render.simps)
  have s2: "render_list (Some ?v) [StyledBannerE A K] =
            Inr (concat (map (rendered ?v) [StyledBannerE A K]))"
    by (rule render_list_in_context)
  have s3: "StyledBanner A K = Host ''section'' (rest_without [''as''] A) K"
    by (simp add: StyledBanner_def A_def container_as)
  have s4: "rendered ?v (StyledBannerE A K) =
            [DElem ''section'' (rest_without [''as''] A) (concat (map (rendered ?v) K))]"
    by (simp only: rendered_StyledBanner s3 rendered_Host)
  have s5: "concat (map (rendered ?v) [StyledBannerE A K]) =
            [DElem ''section'' (rest_without [''as''] A) (concat (map (rendered ?v) K))]"
    by (simp add: s4)
  have s6: "concat (map (rendered ?v) K) =
       ([DElem ''div'' [(''className'', PStr ''BannerIcon'')]
           (rendered ?v (coalesce (icon p) (iconForVariant (resolved_variant p)))),
         DElem ''div'' [(''className'', PStr ''BannerContainer'')]
           (DElem ''div'' [(''className'', PStr ''BannerContent'')]
              ((if truthy (title p)
                then [DElem ''h2'' [(''id'', PStr i), (''className'', PStr ''BannerTitle'')]
                        (rendered ?v (title p))]
                else []) @
               (if truthy (description p)
                then [DElem ''div'' [(''className'', PStr ''BannerDescription'')]
                        (rendered ?v (description p))]
                else []) @
               rendered ?v (children p)) #
            (if truthy (primaryAction p) \<or> truthy (secondaryAction p)
             then [DElem ''div'' [(''className'', PStr ''BannerActions'')]
                     [DElem ''div''
                        [(''className'', PStr ''BannerActionsContainer''),
                         (''data-hide-on-sm'', PStr [])]
                        (rendered ?v (secondaryAction p) @ rendered ?v (primaryAction p)),
                      DElem ''div''
                        [(''className'', PStr ''BannerActionsContainer''),
                         (''data-hide-on-md'', PStr [])]
                        (rendered ?v (primaryAction p) @ rendered ?v (secondaryAction p))]]
             else []))] @
        (case (if resolved_variant p \<noteq> critical then onDismiss p else None) of
           Some h \<Rightarrow>
             [DElem ''IconButton''
                [(''aria-label'', PStr ''Dismiss banner''), (''onClick'', PFun h),
                 (''className'', PStr ''BannerDismiss''), (''icon'', PIcon XIcon),
                 (''variant'', PStr ''invisible'')] []]
         | None \<Rightarrow> []))"
    by (simp add: K_def rendered_Host rendered_leaf rendered_Title_plain
        rendered_Description_plain rendered_Actions split: option.splits)
  have "render None (snd (Banner dev i p)) =
          Inr [DElem ''section'' (rest_without [''as''] A) (concat (map (rendered ?v) K))]"
    by (simp only: s1 s2 s5)
  then show ?thesis
    by (simp only: s6 A_def)
qed

section \<open>The container, the icon, the actions region and the dismiss control\<close>

lemma container_props:
  "map_of (jsx [Spread r, Attr ''aria-labelledby'' a, Attr ''as'' s, Attr ''data-variant'' d,
                Attr ''tabIndex'' t]) k =
     (if k = ''tabIndex'' then Some t
      else if k = ''data-variant'' then Some d
      else if k = ''as'' then Some s
      else if k = ''aria-labelledby'' then Some a
      else map_of r k)"
  by (simp add: jsx_def merge_conv' update_conv')

text \<open>
  C9. For every set of pass-through attributes \<open>rest p\<close>, the props object the root
  hands to its container takes every key from \<open>rest p\<close> first and then sets
  \<^verbatim>\<open>aria-labelledby\<close>, \<^verbatim>\<open>as\<close>, \<^verbatim>\<open>data-variant\<close> and \<^verbatim>\<open>tabIndex\<close>, so these four
  never come from \<open>rest p\<close>. The rendered container is one \<^verbatim>\<open>section\<close> element whose
  \<^verbatim>\<open>aria-labelledby\<close> is the generated identifier, whose \<^verbatim>\<open>data-variant\<close> is the
  resolved variant and whose \<^verbatim>\<open>tabIndex\<close> is -1, whatever \<open>rest p\<close> holds.
\<close>

theorem container_fixed_attributes:
  "\<exists>A K attrs kids.
     snd (Banner dev i p) = Provider (BannerContextValue i) [StyledBannerE A K] \<and>
     (\<forall>k. k \<notin> {''aria-labelledby'', ''as'', ''data-variant'', ''tabIndex''} \<longrightarrow>
          map_of A k = map_of (rest p) k) \<and>
     map_of A ''aria-labelledby'' = Some (PStr i) \<and>
     map_of A ''data-variant'' = Some (PStr (variant_name (resolved_variant p))) \<and>
     map_of A ''tabIndex'' = Some (PNum (- 1)) \<and>
     render None (snd (Banner dev i p)) = Inr [DElem ''section'' attrs kids] \<and>
     map_of attrs ''aria-labelledby'' = Some (PStr i) \<and>
     map_of attrs ''data-variant'' = Some (PStr (variant_name (resolved_variant p))) \<and>
     map_of attrs ''tabIndex'' = Some (PNum (- 1))"
proof -
  have r: "\<exists>attrs kids.
     render None (snd (Banner dev i p)) = Inr [DElem ''section'' attrs kids] \<and>
     map_of attrs ''aria-labelledby'' = Some (PStr i) \<and>
     map_of attrs ''data-variant'' = Some (PStr (variant_name (resolved_variant p))) \<and>
     map_of attrs ''tabIndex'' = Some (PNum (- 1))"
    by (simp add: render_Banner container_attrs)
  have j: "\<exists>A K.
     snd (Banner dev i p) = Provider (BannerContextValue i) [StyledBannerE A K] \<and>
     (\<forall>k. k \<notin> {''aria-labelledby'', ''as'', ''data-variant'', ''tabIndex''} \<longrightarrow>
          map_of A k = map_of (rest p) k) \<and>
     map_of A ''aria-labelledby'' = Some (PStr i) \<and>
     map_of A ''data-variant'' = Some (PStr (variant_name (resolved_variant p))) \<and>
     map_of A ''tabIndex'' = Some (PNum (- 1))"
    unfolding Banner_tree
    by (intro exI conjI, rule refl) (simp_all add: container_props)
  from j r show ?thesis
    by (elim exE conjE) (intro exI conjI; assumption)
qed

theorem container_fixed_attributes_witness:
  "\<exists>A K attrs kids.
     snd (Banner True '':r0:''
       \<lparr>children = Null, description = Undefined, icon = Undefined, onDismiss = None,
        primaryAction = Undefined, secondaryAction = Undefined, title = StrN ''Saved'',
        variant = Some success,
        rest = [(''tabIndex'', PNum 0), (''aria-labelledby'', PStr ''mine''),
                (''data-variant'', PStr ''critical''), (''lang'', PStr ''en'')]\<rparr>) =
       Provider (BannerContextValue '':r0:'') [StyledBannerE A K] \<and>
     map_of A ''lang'' = Some (PStr ''en'') \<and>
     render None (snd (Banner True '':r0:''
       \<lparr>children = Null, description = Undefined, icon = Undefined, onDismiss = None,
        primaryAction = Undefined, secondaryAction = Undefined, title = StrN ''Saved'',
        variant = Some success,
        rest = [(''tabIndex'', PNum 0), (''aria-labelledby'', PStr ''mine''),
                (''data-variant'', PStr ''critical''), (''lang'', PStr ''en'')]\<rparr>)) =
       Inr [DElem ''section'' attrs kids] \<and>
     map_of attrs ''aria-labelledby'' = Some (PStr '':r0:'') \<and>
     map_of attrs ''data-variant'' = Some (PStr ''success'') \<and>
     map_of attrs ''tabIndex'' = Some (PNum (- 1))"
proof -
  let ?p = "\<lparr>children = Null, description = Undefined, icon = Undefined, onDismiss = None,
        primaryAction = Undefined, secondaryAction = Undefined, title = StrN ''Saved'',
        variant = Some success,
        rest = [(''tabIndex'', PNum 0), (''aria-labelledby'', PStr ''mine''),
                (''data-variant'', PStr ''critical''), (''lang'', PStr ''en'')]\<rparr>"
  from container_fixed_attributes [of True "'':r0:''" ?p]
  obtain A where "\<exists>K attrs kids.
     snd (Banner True '':r0:'' ?p) = Provider (BannerContextValue '':r0:'') [StyledBannerE A K] \<and>
     (\<forall>k. k \<notin> {''aria-labelledby'', ''as'', ''data-variant'', ''tabIndex''} \<longrightarrow>
          map_of A k = map_of (rest ?p) k) \<and>
     map_of A ''aria-labelledby'' = Some (PStr '':r0:'') \<and>
     map_of A ''data-variant'' = Some (PStr (variant_name (resolved_variant ?p))) \<and>
     map_of A ''tabIndex'' = Some (PNum (- 1)) \<and>
     render None (snd (Banner True '':r0:'' ?p)) = Inr [DElem ''section'' attrs kids] \<and>
     map_of attrs ''aria-labelledby'' = Some (PStr '':r0:'') \<and>
     map_of attrs ''data-variant'' = Some (PStr (variant_name (resolved_variant ?p))) \<and>
     map_of attrs ''tabIndex'' = Some (PNum (- 1))" ..
  then obtain K where "\<exists>attrs kids.
     snd (Banner True '':r0:'' ?p) = Provider (BannerContextValue '':r0:'') [StyledBannerE A K] \<and>
     (\<forall>k. k \<notin> {''aria-labelledby'', ''as'', ''data-variant'', ''tabIndex''} \<longrightarrow>
          map_of A k = map_of (rest ?p) k) \<and>
     map_of A ''aria-labelledby'' = Some (PStr '':r0:'') \<and>
     map_of A ''data-variant'' = Some (PStr (variant_name (resolved_variant ?p))) \<and>
     map_of A ''tabIndex'' = Some (PNum (- 1)) \<and>
     render None (snd (Banner True '':r0:'' ?p)) = Inr [DElem ''section'' attrs kids] \<and>
     map_of attrs ''aria-labelledby'' = Some (PStr '':r0:'') \<and>
     map_of attrs ''data-variant'' = Some (PStr (variant_name (resolved_variant ?p))) \<and>
     map_of attrs ''tabIndex'' = Some (PNum (- 1))" ..
  then obtain attrs where "\<exists>kids.
     snd (Banner True '':r0:'' ?p) = Provider (BannerContextValue '':r0:'') [StyledBannerE A K] \<and>
     (\<forall>k. k \<notin> {''aria-labelledby'', ''as'', ''data-variant'', ''tabIndex''} \<longrightarrow>
          map_of A k = map_of (rest ?p) k) \<and>
     map_of A ''aria-labelledby'' = Some (PStr '':r0:'') \<and>
     map_of A ''data-variant'' = Some (PStr (variant_name (resolved_variant ?p))) \<and>
     map_of A ''tabIndex'' = Some (PNum (- 1)) \<and>
     render None (snd (Banner True '':r0:'' ?p)) = Inr [DElem ''section'' attrs kids] \<and>
     map_of attrs ''aria-labelledby'' = Some (PStr '':r0:'') \<and>
     map_of attrs ''data-variant'' = Some (PStr (variant_name (resolved_variant ?p))) \<and>
     map_of attrs ''tabIndex'' = Some (PNum (- 1))" ..
  then obtain kids where all:
    "snd (Banner True '':r0:'' ?p) = Provider (BannerContextValue '':r0:'') [StyledBannerE A K] \<and>
     (\<forall>k. k \<notin> {''aria-labelledby'', ''as'', ''data-variant'', ''tabIndex''} \<longrightarrow>
          map_of A k = map_of (rest ?p) k) \<and>
     map_of A ''aria-labelledby'' = Some (PStr '':r0:'') \<and>
     map_of A ''data-variant'' = Some (PStr (variant_name (resolved_variant ?p))) \<and>
     map_of A ''tabIndex'' = Some (PNum (- 1)) \<and>
     render None (snd (Banner True '':r0:'' ?p)) = Inr [DElem ''section'' attrs kids] \<and>
     map_of attrs ''aria-labelledby'' = Some (PStr '':r0:'') \<and>
     map_of attrs ''data-variant'' = Some (PStr (variant_name (resolved_variant ?p))) \<and>
     map_of attrs ''tabIndex'' = Some (PNum (- 1))" ..
  have v: "variant_name (resolved_variant ?p) = ''success''"
    by (simp add: resolved_variant_def variant_name_def)
  have l: "''lang'' \<notin> {''aria-labelledby'', ''as'', ''data-variant'', ''tabIndex''}" by simp
  from all have j: "snd (Banner True '':r0:'' ?p) =
      Provider (BannerContextValue '':r0:'') [StyledBannerE A K]"
    by (rule conjunct1)
  from all have o: "\<forall>k. k \<notin> {''aria-labelledby'', ''as'', ''data-variant'', ''tabIndex''} \<longrightarrow>
          map_of A k = map_of (rest ?p) k"
    by (elim conjE)
  from o l have g: "map_of A ''lang'' = Some (PStr ''en'')"
    by simp
  from all have r: "render None (snd (Banner True '':r0:'' ?p)) = Inr [DElem ''section'' attrs kids]"
    by (elim conjE)
  from all have a: "map_of attrs ''aria-labelledby'' = Some (PStr '':r0:'')"
    by (elim conjE)
  from all have "map_of attrs ''data-variant'' = Some (PStr (variant_name (resolved_variant ?p)))"
    by (elim conjE)
  then have d: "map_of attrs ''data-variant'' = Some (PStr ''success'')"
    by (simp only: v)
  from all have t: "map_of attrs ''tabIndex'' = Some (PNum (- 1))"
    by (elim conjE)
  show ?thesis
    by (intro exI conjI) (rule j g r a d t)+
qed

text \<open>
  C4. The first child of the container is the icon slot. When no icon is supplied
  (\<^verbatim>\<open>undefined\<close>, or \<^verbatim>\<open>null\<close>) the slot holds what the icon of the variant in
  \<open>iconForVariant\<close> renders to; when an icon is supplied the slot holds what that icon
  renders to, whatever the variant. The table is: critical to \<^verbatim>\<open>StopIcon\<close>, info and
  upsell to \<^verbatim>\<open>InfoIcon\<close>, success to \<^verbatim>\<open>CheckCircleIcon\<close>, warning to \<^verbatim>\<open>AlertIcon\<close>.
\<close>

theorem icon_slot:
  assumes "variant p = Some v"
  shows "\<exists>attrs slot others.
     render None (snd (Banner dev i p)) =
       Inr [DElem ''section'' attrs
              (DElem ''div'' [(''className'', PStr ''BannerIcon'')] slot # others)] \<and>
     (nullish (icon p) \<longrightarrow> render (Some (BannerContextValue i)) (iconForVariant v) = Inr slot) \<and>
     (\<not> nullish (icon p) \<longrightarrow> render (Some (BannerContextValue i)) (icon p) = Inr slot) \<and>
     render (Some (BannerContextValue i)) (iconForVariant v) =
       Inr [DElem (case v of critical \<Rightarrow> ''StopIcon'' | info \<Rightarrow> ''InfoIcon''
                   | success \<Rightarrow> ''CheckCircleIcon'' | upsell \<Rightarrow> ''InfoIcon''
                   | warning \<Rightarrow> ''AlertIcon'') [] []]"
proof -
  have v: "resolved_variant p = v"
    using assms by (simp add: resolved_variant_def)
  have t: "render (Some (BannerContextValue i)) (iconForVariant v) =
       Inr [DElem (case v of critical \<Rightarrow> ''StopIcon'' | info \<Rightarrow> ''InfoIcon''
                   | success \<Rightarrow> ''CheckCircleIcon'' | upsell \<Rightarrow> ''InfoIcon''
                   | warning \<Rightarrow> ''AlertIcon'') [] []]"
    by (cases v) (simp_all add: iconForVariant_def octicon_name_def)
  have t': "rendered (BannerContextValue i) (iconForVariant v) =
       [DElem (case v of critical \<Rightarrow> ''StopIcon'' | info \<Rightarrow> ''InfoIcon''
                   | success \<Rightarrow> ''CheckCircleIcon'' | upsell \<Rightarrow> ''InfoIcon''
                   | warning \<Rightarrow> ''AlertIcon'') [] []]"
    using t by (rule rendered_eq)
  show ?thesis
    by (simp add: render_Banner v t' render_in_context coalesce_def)
qed

theorem icon_slot_witness:
  "variant \<lparr>children = Null, description = Undefined, icon = Undefined, onDismiss = None,
        primaryAction = Undefined, secondaryAction = Undefined, title = StrN ''Careful'',
        variant = Some warning, rest = []\<rparr> = Some warning \<and>
   (\<exists>attrs others.
     render None (snd (Banner True '':r0:''
       \<lparr>children = Null, description = Undefined, icon = Undefined, onDismiss = None,
        primaryAction = Undefined, secondaryAction = Undefined, title = StrN ''Careful'',
        variant = Some warning, rest = []\<rparr>)) =
       Inr [DElem ''section'' attrs
              (DElem ''div'' [(''className'', PStr ''BannerIcon'')] [DElem ''AlertIcon'' [] []] #
               others)]) \<and>
   (\<exists>attrs others.
     render None (snd (Banner True '':r0:''
       \<lparr>children = Null, description = Undefined, icon = Octicon XIcon, onDismiss = None,
        primaryAction = Undefined, secondaryAction = Undefined, title = StrN ''Careful'',
        variant = Some warning, rest = []\<rparr>)) =
       Inr [DElem ''section'' attrs
              (DElem ''div'' [(''className'', PStr ''BannerIcon'')] [DElem ''XIcon'' [] []] #
               others)])"
proof -
  let ?p = "\<lparr>children = Null, description = Undefined, icon = Undefined, onDismiss = None,
        primaryAction = Undefined, secondaryAction = Undefined, title = StrN ''Careful'',
        variant = Some warning, rest = []\<rparr>"
  let ?q = "\<lparr>children = Null, description = Undefined, icon = Octicon XIcon, onDismiss = None,
        primaryAction = Undefined, secondaryAction = Undefined, title = StrN ''Careful'',
        variant = Some warning, rest = []\<rparr>"
  have hp: "variant ?p = Some warning" and hq: "variant ?q = Some warning" by simp_all
  have a: "\<exists>attrs others. render None (snd (Banner True '':r0:'' ?p)) =
       Inr [DElem ''section'' attrs
              (DElem ''div'' [(''className'', PStr ''BannerIcon'')] [DElem ''AlertIcon'' [] []] #
               others)]"
    using icon_slot [OF hp, of True "'':r0:''"]
    by (auto simp: iconForVariant_def octicon_name_def)
  have b: "\<exists>attrs others. render None (snd (Banner True '':r0:'' ?q)) =
       Inr [DElem ''section'' attrs
              (DElem ''div'' [(''className'', PStr ''BannerIcon'')] [DElem ''XIcon'' [] []] #
               others)]"
    using icon_slot [OF hq, of True "'':r0:''"]
    by (auto simp: octicon_name_def)
  show ?thesis using hp a b by blast
qed

text \<open>
  C2. After the icon slot and the content container, the root element has a third child,
  the dismiss control, exactly when the resolved variant is not \<^verbatim>\<open>critical\<close> and
  \<^verbatim>\<open>onDismiss\<close> is present. The control is an \<^verbatim>\<open>IconButton\<close> with the label
  \<^verbatim>\<open>Dismiss banner\<close>, the callback as \<^verbatim>\<open>onClick\<close>, the \<^verbatim>\<open>XIcon\<close> and the variant
  \<^verbatim>\<open>invisible\<close>. A critical banner has no third child, whatever \<^verbatim>\<open>onDismiss\<close> is.
\<close>

theorem dismiss_control_iff:
  "\<exists>attrs slot container dismiss.
     render None (snd (Banner dev i p)) =
       Inr [DElem ''section'' attrs
              (DElem ''div'' [(''className'', PStr ''BannerIcon'')] slot #
               DElem ''div'' [(''className'', PStr ''BannerContainer'')] container #
               dismiss)] \<and>
     (dismiss \<noteq> []) = (resolved_variant p \<noteq> critical \<and> onDismiss p \<noteq> None) \<and>
     (\<forall>h. resolved_variant p \<noteq> critical \<and> onDismiss p = Some h \<longrightarrow>
          dismiss =
            [DElem ''IconButton''
               [(''aria-label'', PStr ''Dismiss banner''), (''onClick'', PFun h),
                (''className'', PStr ''BannerDismiss''), (''icon'', PIcon XIcon),
                (''variant'', PStr ''invisible'')] []]) \<and>
     (resolved_variant p = critical \<longrightarrow> dismiss = [])"
  by (cases "onDismiss p") (simp_all add: render_Banner)

theorem dismiss_control_iff_witness:
  "(\<exists>attrs slot container.
     render None (snd (Banner True '':r0:''
       \<lparr>children = Null, description = Undefined, icon = Undefined, onDismiss = Some 1,
        primaryAction = Undefined, secondaryAction = Undefined, title = StrN ''Update'',
        variant = Some upsell, rest = []\<rparr>)) =
       Inr [DElem ''section'' attrs
              [DElem ''div'' [(''className'', PStr ''BannerIcon'')] slot,
               DElem ''div'' [(''className'', PStr ''BannerContainer'')] container,
               DElem ''IconButton''
                 [(''aria-label'', PStr ''Dismiss banner''), (''onClick'', PFun 1),
                  (''className'', PStr ''BannerDismiss''), (''icon'', PIcon XIcon),
                  (''variant'', PStr ''invisible'')] []]]) \<and>
   (\<exists>attrs slot container.
     render None (snd (Banner True '':r0:''
       \<lparr>children = Null, description = Undefined, icon = Undefined, onDismiss = Some 1,
        primaryAction = Undefined, secondaryAction = Undefined, title = StrN ''Update'',
        variant = Some critical, rest = []\<rparr>)) =
       Inr [DElem ''section'' attrs
              [DElem ''div'' [(''className'', PStr ''BannerIcon'')] slot,
               DElem ''div'' [(''className'', PStr ''BannerContainer'')] container]])"
proof -
  let ?p = "\<lparr>children = Null, description = Undefined, icon = Undefined, onDismiss = Some 1,
        primaryAction = Undefined, secondaryAction = Undefined, title = StrN ''Update'',
        variant = Some upsell, rest = []\<rparr>"
  let ?q = "\<lparr>children = Null, description = Undefined, icon = Undefined, onDismiss = Some 1,
        primaryAction = Undefined, secondaryAction = Undefined, title = StrN ''Update'',
        variant = Some critical, rest = []\<rparr>"
  have vp: "resolved_variant ?p \<noteq> critical \<and> onDismiss ?p = Some 1"
    by (simp add: resolved_variant_def)
  have vq: "resolved_variant ?q = critical"
    by (simp add: resolved_variant_def)
  have a: "\<exists>attrs slot container. render None (snd (Banner True '':r0:'' ?p)) =
       Inr [DElem ''section'' attrs
              [DElem ''div'' [(''className'', PStr ''BannerIcon'')] slot,
               DElem ''div'' [(''className'', PStr ''BannerContainer'')] container,
               DElem ''IconButton''
                 [(''aria-label'', PStr ''Dismiss banner''), (''onClick'', PFun 1),
                  (''className'', PStr ''BannerDismiss''), (''icon'', PIcon XIcon),
                  (''variant'', PStr ''invisible'')] []]]"
    using dismiss_control_iff [of True "'':r0:''" ?p] vp by fastforce
  have b: "\<exists>attrs slot container. render None (snd (Banner True '':r0:'' ?q)) =
       Inr [DElem ''section'' attrs
              [DElem ''div'' [(''className'', PStr ''BannerIcon'')] slot,
               DElem ''div'' [(''className'', PStr ''BannerContainer'')] container]]"
    using dismiss_control_iff [of True "'':r0:''" ?q] vq by fastforce
  show ?thesis using a b by blast
qed

text \<open>
  C8. The content container holds the content block and then the actions region. The
  region is there exactly when \<^verbatim>\<open>primaryAction\<close> or \<^verbatim>\<open>secondaryAction\<close> is present
  (truthy, as the code tests it). When it is there it is one \<^verbatim>\<open>BannerActions\<close> element
  with exactly two arrangements: the one marked \<^verbatim>\<open>data-hide-on-sm\<close> (secondary, then
  primary) and the one marked \<^verbatim>\<open>data-hide-on-md\<close> (primary, then secondary). When both
  actions are omitted nothing follows the content block.
\<close>

theorem actions_region_iff:
  "\<exists>attrs slot content region dismiss P S.
     render None (snd (Banner dev i p)) =
       Inr [DElem ''section'' attrs
              (DElem ''div'' [(''className'', PStr ''BannerIcon'')] slot #
               DElem ''div'' [(''className'', PStr ''BannerContainer'')]
                 (DElem ''div'' [(''className'', PStr ''BannerContent'')] content # region) #
               dismiss)] \<and>
     render (Some (BannerContextValue i)) (primaryAction p) = Inr P \<and>
     render (Some (BannerContextValue i)) (secondaryAction p) = Inr S \<and>
     (truthy (primaryAction p) \<or> truthy (secondaryAction p) \<longrightarrow>
        region =
          [DElem ''div'' [(''className'', PStr ''BannerActions'')]
             [DElem ''div''
                [(''className'', PStr ''BannerActionsContainer''), (''data-hide-on-sm'', PStr [])]
                (S @ P),
              DElem ''div''
                [(''className'', PStr ''BannerActionsContainer''), (''data-hide-on-md'', PStr [])]
                (P @ S)]]) \<and>
     (\<not> truthy (primaryAction p) \<and> \<not> truthy (secondaryAction p) \<longrightarrow> region = [])"
  by (simp add: render_Banner render_in_context)

theorem actions_region_iff_witness:
  "(\<exists>attrs slot content dismiss.
     render None (snd (Banner True '':r0:''
       \<lparr>children = Null, description = Undefined, icon = Undefined, onDismiss = None,
        primaryAction = Undefined, secondaryAction = StrN ''Later'', title = StrN ''Update'',
        variant = None, rest = []\<rparr>)) =
       Inr [DElem ''section'' attrs
              (DElem ''div'' [(''className'', PStr ''BannerIcon'')] slot #
               DElem ''div'' [(''className'', PStr ''BannerContainer'')]
                 [DElem ''div'' [(''className'', PStr ''BannerContent'')] content,
                  DElem ''div'' [(''className'', PStr ''BannerActions'')]
                    [DElem ''div''
                       [(''className'', PStr ''BannerActionsContainer''),
                        (''data-hide-on-sm'', PStr [])]
                       [DText ''Later''],
                     DElem ''div''
                       [(''className'', PStr ''BannerActionsContainer''),
                        (''data-hide-on-md'', PStr [])]
                       [DText ''Later'']]] #
               dismiss)]) \<and>
   (\<exists>attrs slot content dismiss.
     render None (snd (Banner True '':r0:''
       \<lparr>children = Null, description = Undefined, icon = Undefined, onDismiss = None,
        primaryAction = Undefined, secondaryAction = Undefined, title = StrN ''Update'',
        variant = None, rest = []\<rparr>)) =
       Inr [DElem ''section'' attrs
              (DElem ''div'' [(''className'', PStr ''BannerIcon'')] slot #
               DElem ''div'' [(''className'', PStr ''BannerContainer'')]
                 [DElem ''div'' [(''className'', PStr ''BannerContent'')] content] #
               dismiss)])"
proof -
  let ?p = "\<lparr>children = Null, description = Undefined, icon = Undefined, onDismiss = None,
        primaryAction = Undefined, secondaryAction = StrN ''Later'', title = StrN ''Update'',
        variant = None, rest = []\<rparr>"
  let ?q = "\<lparr>children = Null, description = Undefined, icon = Undefined, onDismiss = None,
        primaryAction = Undefined, secondaryAction = Undefined, title = StrN ''Update'',
        variant = None, rest = []\<rparr>"
  have hp: "truthy (primaryAction ?p) \<or> truthy (secondaryAction ?p)" by simp
  have hq: "\<not> truthy (primaryAction ?q) \<and> \<not> truthy (secondaryAction ?q)" by simp
  have a: "\<exists>attrs slot content dismiss. render None (snd (Banner True '':r0:'' ?p)) =
       Inr [DElem ''section'' attrs
              (DElem ''div'' [(''className'', PStr ''BannerIcon'')] slot #
               DElem ''div'' [(''className'', PStr ''BannerContainer'')]
                 [DElem ''div'' [(''className'', PStr ''BannerContent'')] content,
                  DElem ''div'' [(''className'', PStr ''BannerActions'')]
                    [DElem ''div''
                       [(''className'', PStr ''BannerActionsContainer''),
                        (''data-hide-on-sm'', PStr [])]
                       [DText ''Later''],
                     DElem ''div''
                       [(''className'', PStr ''BannerActionsContainer''),
                        (''data-hide-on-md'', PStr [])]
                       [DText ''Later'']]] #
               dismiss)]"
    using actions_region_iff [of True "'':r0:''" ?p] hp by fastforce
  have b: "\<exists>attrs slot content dismiss. render None (snd (Banner True '':r0:'' ?q)) =
       Inr [DElem ''section'' attrs
              (DElem ''div'' [(''className'', PStr ''BannerIcon'')] slot #
               DElem ''div'' [(''className'', PStr ''BannerContainer'')]
                 [DElem ''div'' [(''className'', PStr ''BannerContent'')] content] #
               dismiss)]"
    using actions_region_iff [of True "'':r0:''" ?q] hq by fastforce
  show ?thesis using a b by blast
qed

section \<open>Sub-components outside a root\<close>

lemma render_coalesce_Null: "render ctx (coalesce x Null) = render ctx x"
  by (cases x) (simp_all add: coalesce_def)

lemma render_Title_outside: "render None (BannerTitleE props c) = Inl ContextMisuse"
  by (simp add: BannerTitle_None)

lemma render_Description:
  "render ctx (BannerDescriptionE props c) =
     (case render ctx c of
        Inl e \<Rightarrow> Inl e
      | Inr ds \<Rightarrow>
          Inr [DElem ''div''
                 (jsx [Spread (rest_without [''className''] props),
                       Attr ''className'' (PStr (cx ''BannerDescription'' (map_of props ''className'')))])
                 ds])"
  by (simp add: BannerDescription_def Let_def split: sum.splits)

lemma render_Actions:
  "render ctx (BannerActionsE pa sa) =
     (case render ctx sa of
        Inl e \<Rightarrow> Inl e
      | Inr S \<Rightarrow>
          (case render ctx pa of
             Inl e \<Rightarrow> Inl e
           | Inr P \<Rightarrow>
               Inr [DElem ''div'' [(''className'', PStr ''BannerActions'')]
                      [DElem ''div''
                         [(''className'', PStr ''BannerActionsContainer''),
                          (''data-hide-on-sm'', PStr [])]
                         (S @ P),
                       DElem ''div''
                         [(''className'', PStr ''BannerActionsContainer''),
                          (''data-hide-on-md'', PStr [])]
                         (P @ S)]]))"
  by (simp add: BannerActions_literal render_coalesce_Null split: sum.splits)

lemma render_PrimaryAction:
  "render ctx (BannerPrimaryActionE props c) =
     (case render ctx c of
        Inl e \<Rightarrow> Inl e
      | Inr ds \<Rightarrow>
          Inr [DElem ''Button''
                 (jsx [Attr ''className'' (PStr (cx ''BannerPrimaryAction'' (map_of props ''className''))),
                       Attr ''variant'' (PStr ''default''),
                       Spread (rest_without [''className''] props)])
                 ds])"
  by (simp add: BannerPrimaryAction_def Let_def split: sum.splits)

lemma render_SecondaryAction:
  "render ctx (BannerSecondaryActionE props c) =
     (case render ctx c of
        Inl e \<Rightarrow> Inl e
      | Inr ds \<Rightarrow>
          Inr [DElem ''Button''
                 (jsx [Attr ''className'' (PStr (cx ''BannerPrimaryAction'' (map_of props ''className''))),
                       Attr ''variant'' (PStr ''invisible''),
                       Spread (rest_without [''className''] props)])
                 ds])"
  by (simp add: BannerSecondaryAction_def Let_def split: sum.splits)

text \<open>
  C5, as amended. Outside every root (no provider above it) \<^verbatim>\<open>Banner.Title\<close> throws
  the ContextMisuse error, for every props object and content. The description, the
  actions region and the two action buttons do not read the context: outside a root each
  of them renders its element whenever its own content renders there.
\<close>

theorem subcomponents_outside_root:
  "BannerTitle None props c = Inl ContextMisuse \<and>
   render None (BannerTitleE props c) = Inl ContextMisuse \<and>
   (\<forall>ds. render None c = Inr ds \<longrightarrow>
      (\<exists>a. render None (BannerDescriptionE props c) = Inr [DElem ''div'' a ds]) \<and>
      (\<exists>a. render None (BannerPrimaryActionE props c) = Inr [DElem ''Button'' a ds]) \<and>
      (\<exists>a. render None (BannerSecondaryActionE props c) = Inr [DElem ''Button'' a ds])) \<and>
   (\<forall>P S. render None pa = Inr P \<and> render None sa = Inr S \<longrightarrow>
      render None (BannerActionsE pa sa) =
        Inr [DElem ''div'' [(''className'', PStr ''BannerActions'')]
               [DElem ''div''
                  [(''className'', PStr ''BannerActionsContainer''), (''data-hide-on-sm'', PStr [])]
                  (S @ P),
                DElem ''div''
                  [(''className'', PStr ''BannerActionsContainer''), (''data-hide-on-md'', PStr [])]
                  (P @ S)]])"
  by (simp add: BannerTitle_None render_Title_outside render_Description render_PrimaryAction
      render_SecondaryAction render_Actions del: render.simps)

theorem subcomponents_outside_root_witness:
  "render None (BannerTitleE [] (StrN ''Saved'')) = Inl ContextMisuse \<and>
   render None (StrN ''Saved'') = Inr [DText ''Saved''] \<and>
   (\<exists>a. render None (BannerDescriptionE [] (StrN ''Saved'')) = Inr [DElem ''div'' a [DText ''Saved'']]) \<and>
   render None (BannerActionsE (StrN ''Saved'') (StrN ''Saved'')) =
        Inr [DElem ''div'' [(''className'', PStr ''BannerActions'')]
               [DElem ''div''
                  [(''className'', PStr ''BannerActionsContainer''), (''data-hide-on-sm'', PStr [])]
                  [DText ''Saved'', DText ''Saved''],
                DElem ''div''
                  [(''className'', PStr ''BannerActionsContainer''), (''data-hide-on-md'', PStr [])]
                  [DText ''Saved'', DText ''Saved'']]]"
proof -
  have h: "render None (StrN ''Saved'') = Inr [DText ''Saved'']" by simp
  show ?thesis
    using h subcomponents_outside_root [of "[]" "StrN ''Saved''" "StrN ''Saved''" "StrN ''Saved''"]
    by force
qed

text \<open>
  C5 as stated fails for the description and for the actions region: rendered at the top
  level, with no root around them, they return their elements and nothing is thrown.
\<close>

theorem description_outside_root_renders:
  "render None (BannerDescriptionE [] (StrN ''Saved'')) =
     Inr [DElem ''div'' [(''className'', PStr ''BannerDescription'')] [DText ''Saved'']] \<and>
   render None (BannerActionsE (StrN ''Retry'') Undefined) =
     Inr [DElem ''div'' [(''className'', PStr ''BannerActions'')]
            [DElem ''div''
               [(''className'', PStr ''BannerActionsContainer''), (''data-hide-on-sm'', PStr [])]
               [DText ''Retry''],
             DElem ''div''
               [(''className'', PStr ''BannerActionsContainer''), (''data-hide-on-md'', PStr [])]
               [DText ''Retry'']]] \<and>
   render None (BannerDescriptionE [] (StrN ''Saved'')) \<noteq> Inl ContextMisuse \<and>
   render None (BannerActionsE (StrN ''Retry'') Undefined) \<noteq> Inl ContextMisuse"
  by (simp add: BannerDescription_def BannerActions_def Let_def jsx_def rest_without_def cx_def
      coalesce_def)

section \<open>The title element and the identifier\<close>

lemma fresh_coalesce_icon: "fresh i x \<Longrightarrow> fresh i (coalesce x (iconForVariant v))"
  by (cases v) (simp_all add: coalesce_def iconForVariant_def)

lemma titles_coalesce_icon: "titles (coalesce x (iconForVariant v)) = titles x"
  by (cases x; cases v) (simp_all add: coalesce_def iconForVariant_def)

lemma dom_id_container:
  "dom_id (rest_without [''as'']
      (jsx [Spread r, Attr ''aria-labelledby'' a, Attr ''as'' s, Attr ''data-variant'' d,
            Attr ''tabIndex'' t])) = dom_id r"
  by (rule dom_id_cong) (simp add: container_attrs)

lemma dom_id_literal:
  "dom_id [(''className'', c)] = None"
  "dom_id [(''className'', c), (''data-hide-on-sm'', d)] = None"
  "dom_id [(''className'', c), (''data-hide-on-md'', d)] = None"
  "dom_id [(''id'', PStr i), (''className'', c)] = Some i"
  "dom_id [(''aria-label'', l), (''onClick'', f), (''className'', c), (''icon'', k),
           (''variant'', v)] = None"
  by (simp_all add: dom_id_def)

lemma count_ids_Banner:
  assumes "content_fresh i p"
  shows "\<exists>attrs kids.
     render None (snd (Banner dev i p)) = Inr [DElem ''section'' attrs kids] \<and>
     map_of attrs ''aria-labelledby'' = Some (PStr i) \<and>
     count_ids i [DElem ''section'' attrs kids] =
       (if truthy (title p) then Suc (titles (title p)) else 0) +
       (if truthy (description p) then titles (description p) else 0) +
       titles (children p) + titles (icon p) +
       (if truthy (primaryAction p) \<or> truthy (secondaryAction p)
        then 2 * (titles (primaryAction p) + titles (secondaryAction p)) else 0)"
proof -
  from assms have f: "dom_id (rest p) \<noteq> Some i" "fresh i (title p)" "fresh i (description p)"
    "fresh i (children p)" "fresh i (icon p)" "fresh i (primaryAction p)"
    "fresh i (secondaryAction p)"
    by (simp_all add: content_fresh_def)
  have c: "count_ids i (rendered (BannerContextValue i) (title p)) = titles (title p)"
    "count_ids i (rendered (BannerContextValue i) (description p)) = titles (description p)"
    "count_ids i (rendered (BannerContextValue i) (children p)) = titles (children p)"
    "count_ids i (rendered (BannerContextValue i) (primaryAction p)) = titles (primaryAction p)"
    "count_ids i (rendered (BannerContextValue i) (secondaryAction p)) = titles (secondaryAction p)"
    "count_ids i (rendered (BannerContextValue i)
        (coalesce (icon p) (iconForVariant (resolved_variant p)))) = titles (icon p)"
    using f by (simp_all add: count_ids_fresh fresh_coalesce_icon titles_coalesce_icon)
  show ?thesis
    using f(1)
    by (simp add: render_Banner container_attrs dom_id_container dom_id_literal
        count_ids_append c split: option.splits)
qed

text \<open>
  C1, as amended. Let the identifier be fresh, that is, the caller gives it to no element
  of the content and not to the container (\<open>content_fresh\<close>). If the title is supplied in
  exactly one of the two ways, either by a truthy \<^verbatim>\<open>title\<close> prop while the content
  holds no \<^verbatim>\<open>Banner.Title\<close> element, or by exactly one \<^verbatim>\<open>Banner.Title\<close> element among
  the children while the \<^verbatim>\<open>title\<close> prop is falsy and no other node prop holds a
  \<^verbatim>\<open>Banner.Title\<close>, then exactly one element of the rendered tree has the generated
  identifier as its \<^verbatim>\<open>id\<close>, and the container's \<^verbatim>\<open>aria-labelledby\<close> is that identifier.
\<close>

theorem single_title_element:
  assumes "content_fresh i p"
    and "(truthy (title p) \<and> titles_in_content p = 0) \<or>
         (\<not> truthy (title p) \<and> titles (children p) = 1 \<and> titles_in_content p = 1)"
  shows "\<exists>attrs kids.
     render None (snd (Banner dev i p)) = Inr [DElem ''section'' attrs kids] \<and>
     count_ids i [DElem ''section'' attrs kids] = 1 \<and>
     map_of attrs ''aria-labelledby'' = Some (PStr i)"
proof -
  obtain attrs kids where
    r: "render None (snd (Banner dev i p)) = Inr [DElem ''section'' attrs kids]"
    and a: "map_of attrs ''aria-labelledby'' = Some (PStr i)"
    and n: "count_ids i [DElem ''section'' attrs kids] =
       (if truthy (title p) then Suc (titles (title p)) else 0) +
       (if truthy (description p) then titles (description p) else 0) +
       titles (children p) + titles (icon p) +
       (if truthy (primaryAction p) \<or> truthy (secondaryAction p)
        then 2 * (titles (primaryAction p) + titles (secondaryAction p)) else 0)"
    using count_ids_Banner [OF assms(1), of dev] by blast
  from assms(2) have "count_ids i [DElem ''section'' attrs kids] = 1"
  proof
    assume "truthy (title p) \<and> titles_in_content p = 0"
    then show ?thesis
      unfolding n by (simp add: titles_in_content_def)
  next
    assume h: "\<not> truthy (title p) \<and> titles (children p) = 1 \<and> titles_in_content p = 1"
    then have "titles (title p) = 0" by (simp add: falsy_no_titles)
    with h show ?thesis
      unfolding n by (simp add: titles_in_content_def)
  qed
  with r a show ?thesis by blast
qed

theorem single_title_element_witness:
  "content_fresh '':r0:''
     \<lparr>children = StrN ''Body'', description = Undefined, icon = Undefined, onDismiss = None,
      primaryAction = Undefined, secondaryAction = Undefined, title = StrN ''Saved'',
      variant = None, rest = [(''id'', PStr ''banner'')]\<rparr> \<and>
   content_fresh '':r0:''
     \<lparr>children = BannerTitleE [(''as'', PStr ''h3'')] (StrN ''Saved''), description = Undefined,
      icon = Undefined, onDismiss = None, primaryAction = Undefined,
      secondaryAction = Undefined, title = Undefined, variant = None, rest = []\<rparr> \<and>
   (\<exists>attrs kids.
     render None (snd (Banner True '':r0:''
       \<lparr>children = StrN ''Body'', description = Undefined, icon = Undefined, onDismiss = None,
        primaryAction = Undefined, secondaryAction = Undefined, title = StrN ''Saved'',
        variant = None, rest = [(''id'', PStr ''banner'')]\<rparr>)) =
       Inr [DElem ''section'' attrs kids] \<and>
     count_ids '':r0:'' [DElem ''section'' attrs kids] = 1 \<and>
     map_of attrs ''aria-labelledby'' = Some (PStr '':r0:'')) \<and>
   (\<exists>attrs kids.
     render None (snd (Banner True '':r0:''
       \<lparr>children = BannerTitleE [(''as'', PStr ''h3'')] (StrN ''Saved''), description = Undefined,
        icon = Undefined, onDismiss = None, primaryAction = Undefined,
        secondaryAction = Undefined, title = Undefined, variant = None, rest = []\<rparr>)) =
       Inr [DElem ''section'' attrs kids] \<and>
     count_ids '':r0:'' [DElem ''section'' attrs kids] = 1 \<and>
     map_of attrs ''aria-labelledby'' = Some (PStr '':r0:''))"
proof -
  let ?p = "\<lparr>children = StrN ''Body'', description = Undefined, icon = Undefined,
      onDismiss = None, primaryAction = Undefined, secondaryAction = Undefined,
      title = StrN ''Saved'', variant = None, rest = [(''id'', PStr ''banner'')]\<rparr>"
  let ?q = "\<lparr>children = BannerTitleE [(''as'', PStr ''h3'')] (StrN ''Saved''),
      description = Undefined, icon = Undefined, onDismiss = None, primaryAction = Undefined,
      secondaryAction = Undefined, title = Undefined, variant = None, rest = []\<rparr>"
  have fp: "content_fresh '':r0:'' ?p" and fq: "content_fresh '':r0:'' ?q"
    by (simp_all add: content_fresh_def dom_id_def)
  have hp: "(truthy (title ?p) \<and> titles_in_content ?p = 0) \<or>
         (\<not> truthy (title ?p) \<and> titles (children ?p) = 1 \<and> titles_in_content ?p = 1)"
    by (simp add: titles_in_content_def)
  have hq: "(truthy (title ?q) \<and> titles_in_content ?q = 0) \<or>
         (\<not> truthy (title ?q) \<and> titles (children ?q) = 1 \<and> titles_in_content ?q = 1)"
    by (simp add: titles_in_content_def)
  show ?thesis
    using fp fq single_title_element [OF fp hp, of True] single_title_element [OF fq hq, of True]
    by blast
qed

text \<open>
  C1 as stated fails when the title is supplied in both ways at once: with a \<^verbatim>\<open>title\<close>
  prop and a \<^verbatim>\<open>Banner.Title\<close> child, two headings carry the generated identifier. It
  also fails with no \<^verbatim>\<open>title\<close> prop and two \<^verbatim>\<open>Banner.Title\<close> children.
\<close>

theorem two_title_elements:
  "render None (snd (Banner True '':r0:''
     \<lparr>children = BannerTitleE [] (StrN ''Saved again''), description = Undefined,
      icon = Undefined, onDismiss = None, primaryAction = Undefined,
      secondaryAction = Undefined, title = StrN ''Saved'', variant = None, rest = []\<rparr>)) =
     Inr [DElem ''section''
            [(''aria-labelledby'', PStr '':r0:''), (''data-variant'', PStr ''info''),
             (''tabIndex'', PNum (- 1))]
            [DElem ''div'' [(''className'', PStr ''BannerIcon'')] [DElem ''InfoIcon'' [] []],
             DElem ''div'' [(''className'', PStr ''BannerContainer'')]
               [DElem ''div'' [(''className'', PStr ''BannerContent'')]
                  [DElem ''h2'' [(''id'', PStr '':r0:''), (''className'', PStr ''BannerTitle'')]
                     [DText ''Saved''],
                   DElem ''h2'' [(''id'', PStr '':r0:''), (''className'', PStr ''BannerTitle'')]
                     [DText ''Saved again'']]]]] \<and>
   map_sum id (count_ids '':r0:'')
     (render None (snd (Banner True '':r0:''
       \<lparr>children = BannerTitleE [] (StrN ''Saved again''), description = Undefined,
        icon = Undefined, onDismiss = None, primaryAction = Undefined,
        secondaryAction = Undefined, title = StrN ''Saved'', variant = None, rest = []\<rparr>))) =
     Inr 2 \<and>
   map_sum id (count_ids '':r0:'')
     (render None (snd (Banner True '':r0:''
       \<lparr>children = Frag [BannerTitleE [] (StrN ''Saved''), BannerTitleE [] (StrN ''Saved again'')],
        description = Undefined, icon = Undefined, onDismiss = None,
        primaryAction = Undefined, secondaryAction = Undefined, title = Undefined,
        variant = None, rest = []\<rparr>))) =
     Inr 2"
  by (simp add: Banner_def Let_def resolved_variant_def variant_name_def iconForVariant_def
      octicon_name_def js_or_def coalesce_def StyledBanner_def BannerTitle_def useBanner_def
      jsx_def rest_without_def cx_def dom_id_def)

section \<open>The development-only check of the title\<close>

lemma Banner_effects:
  "fst (Banner dev i p) =
     (if dev
      then [\<lambda>document. case getElementById document i of
                          None \<Rightarrow> Inl MissingAccessibleTitle
                        | Some t \<Rightarrow> Inr ()]
      else [])"
  by (simp add: Banner_def Let_def)

lemma mount_unfold:
  "mount dev i p page =
     (case render None (snd (Banner dev i p)) of
        Inl e \<Rightarrow> Inl e
      | Inr ds \<Rightarrow>
          if dev \<and> count_ids i (page @ ds) = 0 then Inl MissingAccessibleTitle else Inr ds)"
proof -
  have "mount dev i p page =
     (case render None (snd (Banner dev i p)) of
        Inl e \<Rightarrow> Inl e
      | Inr ds \<Rightarrow>
          (case run_effects (fst (Banner dev i p)) (page @ ds) of
             Inl e \<Rightarrow> Inl e
           | Inr u \<Rightarrow> Inr ds))"
    by (simp add: mount_def split_beta)
  then show ?thesis
    by (simp add: Banner_effects getElementById_def elems_by_id_None [symmetric]
        split: sum.splits option.splits)
qed

text \<open>
  C6. Let the identifier be fresh in the content and on the rest of the page. In a
  development build, a root with no truthy \<^verbatim>\<open>title\<close> prop and no \<^verbatim>\<open>Banner.Title\<close>
  element in its content throws the MissingAccessibleTitle error from the effect that runs
  after the commit; rendering itself succeeds. In a production build no effect is
  registered and mounting returns the rendered tree, for every props object. The element
  the root returns is the same in both builds, and a development mount that does not
  throw returns what the production mount returns.
\<close>

theorem missing_title_diagnostic:
  "(content_fresh i p \<and> count_ids i page = 0 \<and> \<not> truthy (title p) \<and> titles_in_content p = 0 \<longrightarrow>
      mount True i p page = Inl MissingAccessibleTitle) \<and>
   (\<exists>ds. render None (snd (Banner True i p)) = Inr ds) \<and>
   fst (Banner False i p) = [] \<and>
   (\<exists>ds. render None (snd (Banner False i p)) = Inr ds \<and> mount False i p page = Inr ds) \<and>
   snd (Banner True i p) = snd (Banner False i p) \<and>
   (\<forall>ds. mount True i p page = Inr ds \<longrightarrow> mount False i p page = Inr ds)"
proof -
  have same: "snd (Banner True i p) = snd (Banner False i p)"
    by (simp add: Banner_tree)
  have prod: "\<exists>ds. render None (snd (Banner False i p)) = Inr ds \<and> mount False i p page = Inr ds"
    by (simp add: mount_unfold render_Banner)
  have dev_prod: "\<forall>ds. mount True i p page = Inr ds \<longrightarrow> mount False i p page = Inr ds"
    by (simp add: mount_unfold same split: sum.splits if_splits)
  have missing: "mount True i p page = Inl MissingAccessibleTitle"
    if h: "content_fresh i p \<and> count_ids i page = 0 \<and> \<not> truthy (title p) \<and>
           titles_in_content p = 0"
  proof -
    obtain attrs kids where
      r: "render None (snd (Banner True i p)) = Inr [DElem ''section'' attrs kids]"
      and n: "count_ids i [DElem ''section'' attrs kids] =
         (if truthy (title p) then Suc (titles (title p)) else 0) +
         (if truthy (description p) then titles (description p) else 0) +
         titles (children p) + titles (icon p) +
         (if truthy (primaryAction p) \<or> truthy (secondaryAction p)
          then 2 * (titles (primaryAction p) + titles (secondaryAction p)) else 0)"
      using count_ids_Banner [of i p True] h by blast
    from h have "count_ids i [DElem ''section'' attrs kids] = 0"
      unfolding n by (simp add: titles_in_content_def)
    with h r show ?thesis
      by (simp add: mount_unfold count_ids_append)
  qed
  have renders: "\<exists>ds. render None (snd (Banner True i p)) = Inr ds"
    by (simp add: render_Banner)
  show ?thesis
    using same prod dev_prod missing renders by (simp add: Banner_effects)
qed

theorem missing_title_diagnostic_witness:
  "content_fresh '':r0:''
     \<lparr>children = StrN ''Body'', description = StrN ''More'', icon = Undefined, onDismiss = None,
      primaryAction = Undefined, secondaryAction = Undefined, title = Undefined,
      variant = None, rest = []\<rparr> \<and>
   count_ids '':r0:'' [DElem ''h1'' [(''id'', PStr ''top'')] [DText ''Page'']] = 0 \<and>
   mount True '':r0:''
     \<lparr>children = StrN ''Body'', description = StrN ''More'', icon = Undefined, onDismiss = None,
      primaryAction = Undefined, secondaryAction = Undefined, title = Undefined,
      variant = None, rest = []\<rparr>
     [DElem ''h1'' [(''id'', PStr ''top'')] [DText ''Page'']] = Inl MissingAccessibleTitle \<and>
   (\<exists>ds. mount False '':r0:''
     \<lparr>children = StrN ''Body'', description = StrN ''More'', icon = Undefined, onDismiss = None,
      primaryAction = Undefined, secondaryAction = Undefined, title = Undefined,
      variant = None, rest = []\<rparr>
     [DElem ''h1'' [(''id'', PStr ''top'')] [DText ''Page'']] = Inr ds)"
proof -
  let ?p = "\<lparr>children = StrN ''Body'', description = StrN ''More'', icon = Undefined,
      onDismiss = None, primaryAction = Undefined, secondaryAction = Undefined,
      title = Undefined, variant = None, rest = []\<rparr>"
  let ?page = "[DElem ''h1'' [(''id'', PStr ''top'')] [DText ''Page'']]"
  have h: "content_fresh '':r0:'' ?p \<and> count_ids '':r0:'' ?page = 0 \<and>
           \<not> truthy (title ?p) \<and> titles_in_content ?p = 0"
    by (simp add: content_fresh_def titles_in_content_def dom_id_def)
  show ?thesis
    using h missing_title_diagnostic [of "'':r0:''" ?p ?page] by blast
qed

end
